theory Spec2Isabelle
  imports Main "HOL-Library.Multiset"
begin

section \<open>JavaScript objects used as dictionaries\<close>

text \<open>
  A plain object used as a dictionary and a \<^verbatim>\<open>Map\<close> are association lists in insertion
  order. \<open>dset\<close> is the assignment \<^verbatim>\<open>obj[k] = v\<close> (and \<^verbatim>\<open>Map.set\<close>): an existing key keeps
  its position and takes the new value, a new key goes to the end. \<open>spread p c\<close> is the
  object literal \<^verbatim>\<open>{ ...p, ...c }\<close>. The keys that the declaration API stores are ordinary
  identifiers: none is numeric (JavaScript orders such keys first) and none is the name of
  a property of \<^verbatim>\<open>Object.prototype\<close>. A name that \<^verbatim>\<open>build()\<close> looks up may be any string;
  these lookups are \<open>property\<close> below.
\<close>

type_synonym ('k, 'v) dict = "('k \<times> 'v) list"

text \<open>
  Modelled from the spec: the type \<^verbatim>\<open>Hash<T>\<close> of \<^verbatim>\<open>src/util/hash.ts\<close>, which is not among
  the sources. The spec describes these attributes as mappings from a name to a record,
  and the code indexes them with strings and reads them with \<^verbatim>\<open>Object.entries\<close>.
\<close>

type_synonym 'v hash = "(string, 'v) dict"

definition dget :: "('k, 'v) dict \<Rightarrow> 'k \<Rightarrow> 'v option" where
  "dget h k = map_of h k"

definition dhas :: "('k, 'v) dict \<Rightarrow> 'k \<Rightarrow> bool" where
  "dhas h k = (dget h k \<noteq> None)"

definition dkeys :: "('k, 'v) dict \<Rightarrow> 'k list" where
  "dkeys h = map fst h"

fun dset :: "('k, 'v) dict \<Rightarrow> 'k \<Rightarrow> 'v \<Rightarrow> ('k, 'v) dict" where
  "dset [] k v = [(k, v)]"
| "dset ((k', v') # h) k v = (if k' = k then (k, v) # h else (k', v') # dset h k v)"

definition spread :: "('k, 'v) dict \<Rightarrow> ('k, 'v) dict \<Rightarrow> ('k, 'v) dict" where
  "spread p c = fold (\<lambda>(k, v) acc. dset acc k v) c p"

text \<open>\<^verbatim>\<open>xs.reduce((p, c) => ({ ...p, ...c }), {})\<close>\<close>

definition reduce_spread :: "('k, 'v) dict list \<Rightarrow> ('k, 'v) dict" where
  "reduce_spread xs = foldl spread [] xs"

text \<open>
  Reading \<^verbatim>\<open>obj[name]\<close>, or testing \<^verbatim>\<open>name in obj\<close>, on a plain object also finds the
  properties the object inherits from \<^verbatim>\<open>Object.prototype\<close>. Each of them is a function or
  an object, so it is truthy.
\<close>

definition objectPrototypeNames :: "string list" where
  "objectPrototypeNames =
     [''constructor'', ''__defineGetter__'', ''__defineSetter__'', ''hasOwnProperty'',
      ''__lookupGetter__'', ''__lookupSetter__'', ''isPrototypeOf'', ''propertyIsEnumerable'',
      ''toString'', ''valueOf'', ''__proto__'', ''toLocaleString'']"

datatype 'v property = Own 'v | Inherited | Missing

definition property :: "'v hash \<Rightarrow> string \<Rightarrow> 'v property" where
  "property h name =
     (case dget h name of
        Some v \<Rightarrow> Own v
      | None \<Rightarrow> if name \<in> set objectPrototypeNames then Inherited else Missing)"

section \<open>Data model (src/types.ts)\<close>

datatype js_value = JStr string | JNum int

text \<open>Functions supplied by the caller (resolvers, hooks) are opaque: only their identity matters.\<close>

type_synonym js_fn = nat

text \<open>
  A class: its identity, its \<^verbatim>\<open>name\<close>, the text \<^verbatim>\<open>String(cls)\<close> gives, and
  \<^verbatim>\<open>Object.getPrototypeOf(cls)\<close> (\<open>None\<close> is \<^verbatim>\<open>Function.prototype\<close>, whose name is empty).
  \<^verbatim>\<open>===\<close> on classes is equality of these values.
\<close>

datatype cls = Cls (cid: nat) (cname: string) (csource: string) (cproto: "cls option")

text \<open>An enum object: its identity and \<^verbatim>\<open>Object.entries\<close> of it.\<close>

datatype enum_obj = EnumObj (eid: nat) (eentries: "(string \<times> js_value) list")

text \<open>
  Types of the schema library. A named type built by \<^verbatim>\<open>build()\<close> is referred to by its
  name, as the schema graph is cyclic; \<open>GGiven\<close> is a named type object the caller passed
  in, one of the scalars the schema library exports (\<^verbatim>\<open>GraphQLString\<close>, ...), identified by
  its name; \<open>GForeign\<close> is an object that is no schema type and that a converter hands back
  unchanged: an enum object that is not registered, a field record, or a property of
  \<^verbatim>\<open>Object.prototype\<close>. \<open>GNonNull\<close> and \<open>GList\<close> are the wrappers; \<^verbatim>\<open>build()\<close> makes them with
  the constructors \<open>newGraphQLNonNull\<close> and \<open>newGraphQLList\<close> below, which may throw.
\<close>

datatype foreign = RawEnum enum_obj | RawFieldRecord "string option" | PrototypeMember string

datatype gql_type =
    GGiven string
  | GEnumType string
  | GInterfaceType string
  | GScalarType string
  | GObjectType string
  | GInputObjectType string
  | GNonNull gql_type
  | GList gql_type
  | GUndefined
  | GForeign foreign

text \<open>
  What is thrown. \<open>Error\<close> and \<open>TypeError\<close> carry their message. \<open>LibraryError\<close> is an
  \<^verbatim>\<open>Error\<close> that the schema library throws when one of its own checks fails; its message
  is the library's, and the model keeps what the check was about. \<open>OutsideModel\<close> is not an
  error of the program: it ends a run at a point where the schema library is handed an
  object that is no schema type and what it does next depends on the identity of that
  object, which the model does not keep.
\<close>

datatype library_error = NotAType gql_type | NotNullable gql_type | DuplicateName string

datatype js_error = Error string | TypeError string | LibraryError library_error | OutsideModel

text \<open>
  \<^verbatim>\<open>OutputType\<close> and \<^verbatim>\<open>InputType\<close>: a thunk returning a class, a type object, a name, or
  another object (an enum object; a field record that has no \<^verbatim>\<open>type\<close> when
  \<^verbatim>\<open>convertFieldInfoToType\<close> passes it on).
\<close>

datatype type_ref =
    TThunk cls
  | TName string
  | TEnumObject enum_obj
  | TGraphQL gql_type
  | TFieldRecord "string option"

record argument_info =
  a_type :: type_ref
  a_defaultValue :: "js_value option"
  a_description :: "string option"

text \<open>
  A field record. \<open>f_name\<close> is the \<^verbatim>\<open>name\<close> that \<^verbatim>\<open>getOrAddField\<close> stores; \<open>f_type = None\<close>
  is a record without the property \<^verbatim>\<open>type\<close>; an absent flag is \<open>False\<close>.
\<close>

record field_info =
  f_name :: "string option"
  f_type :: "type_ref option"
  f_args :: "argument_info hash option"
  f_resolver :: "js_fn option"
  f_description :: "string option"
  f_list :: bool
  f_nonNull :: bool
  f_nonNullItems :: bool

datatype return_ref = RFieldInfo field_info | RType type_ref

record resolver_config =
  c_args :: "argument_info hash option"
  c_resolve :: "js_fn option"
  c_subscribe :: "js_fn option"
  c_deprecationReason :: "string option"
  c_description :: "string option"

record resolver_info =
  r_type :: return_ref
  r_config :: resolver_config

datatype kind = KInterface | KType | KInput | KScalar

text \<open>
  An entry of the list an \<^verbatim>\<open>interfaces\<close> thunk returns: a name, a class, or an interface
  type object (given by its name).
\<close>

datatype iface_ref = IName string | IClass cls | IGraphQL string

record gql_scalar =
  s_name :: string
  s_description :: "string option"
  s_serialize :: js_fn
  s_parseValue :: "js_fn option"
  s_parseLiteral :: "js_fn option"

record type_info =
  t_name :: string
  t_kind :: "kind option"
  t_target :: "cls option"
  t_scalar :: "gql_scalar option"
  t_description :: "string option"
  t_interfaces :: "iface_ref list option"
  t_isTypeOf :: "js_fn option"
  t_resolveType :: "js_fn option"
  t_fields :: "field_info hash"
  t_queries :: "resolver_info hash"
  t_mutations :: "resolver_info hash"
  t_subscriptions :: "resolver_info hash"

record enum_value_info =
  v_value :: "js_value option"
  v_description :: "string option"
  v_deprecationReason :: "string option"

record enum_info =
  e_name :: string
  e_description :: "string option"
  e_target :: enum_obj
  e_values :: "enum_value_info hash"

text \<open>The registry: the two private stores of \<^verbatim>\<open>SchemaBuilder\<close>.\<close>

record builder =
  types :: "type_info hash"
  enums :: "(enum_obj, enum_info) dict"

definition new_builder :: builder where
  "new_builder = \<lparr>types = [], enums = []\<rparr>"

section \<open>Inheritance resolver (src/util/tree.ts)\<close>

fun getPrototypeOf :: "cls \<Rightarrow> cls list" where
  "getPrototypeOf (Cls i n s None) = []"
| "getPrototypeOf (Cls i n s (Some p)) =
     (if cname p \<noteq> [] then p # getPrototypeOf p else [])"

definition getInheritanceTree :: "cls \<Rightarrow> cls list" where
  "getInheritanceTree entity = entity # getPrototypeOf entity"

section \<open>Registry operations\<close>

definition findByClass :: "builder \<Rightarrow> cls \<Rightarrow> type_info option" where
  "findByClass b target = find (\<lambda>t. t_target t = Some target) (map snd (types b))"

definition new_type :: "string \<Rightarrow> type_info" where
  "new_type name = \<lparr>t_name = name, t_kind = None, t_target = None, t_scalar = None,
     t_description = None, t_interfaces = None, t_isTypeOf = None, t_resolveType = None,
     t_fields = [], t_queries = [], t_mutations = [], t_subscriptions = []\<rparr>"

definition getOrAddType :: "builder \<Rightarrow> string \<Rightarrow> type_info \<times> builder" where
  "getOrAddType b name =
     (let t = (case dget (types b) name of Some t \<Rightarrow> t | None \<Rightarrow> new_type name)
      in (t, b\<lparr>types := dset (types b) name t\<rparr>))"

text \<open>A write through the reference \<^verbatim>\<open>getOrAddType\<close> returned.\<close>

definition assignType :: "builder \<Rightarrow> string \<Rightarrow> (type_info \<Rightarrow> type_info) \<Rightarrow> builder" where
  "assignType b name upd =
     (let (t, b1) = getOrAddType b name in b1\<lparr>types := dset (types b1) name (upd t)\<rparr>)"

definition new_field :: "string \<Rightarrow> field_info" where
  "new_field name = \<lparr>f_name = Some name, f_type = None, f_args = None, f_resolver = None,
     f_description = None, f_list = False, f_nonNull = False, f_nonNullItems = False\<rparr>"

definition getOrAddField :: "builder \<Rightarrow> string \<Rightarrow> string \<Rightarrow> field_info \<times> builder" where
  "getOrAddField b typeName name =
     (let (t, b1) = getOrAddType b typeName;
          f = (case dget (t_fields t) name of Some f \<Rightarrow> f | None \<Rightarrow> new_field name)
      in (f, b1\<lparr>types := dset (types b1) typeName (t\<lparr>t_fields := dset (t_fields t) name f\<rparr>)\<rparr>))"

text \<open>A write through the reference \<^verbatim>\<open>getOrAddField\<close> returned.\<close>

definition assignField ::
  "builder \<Rightarrow> string \<Rightarrow> string \<Rightarrow> (field_info \<Rightarrow> field_info) \<Rightarrow> builder" where
  "assignField b typeName name upd =
     (let (f, b1) = getOrAddField b typeName name
      in case dget (types b1) typeName of
           None \<Rightarrow> b1
         | Some t \<Rightarrow> b1\<lparr>types := dset (types b1) typeName
                          (t\<lparr>t_fields := dset (t_fields t) name (upd f)\<rparr>)\<rparr>)"

text \<open>
  \<^verbatim>\<open>String.prototype.trim\<close>. A \<open>char\<close> is a code unit below 256; the white space of
  JavaScript among these is tab, line feed, vertical tab, form feed, carriage return,
  space and the no-break space. The white space beyond 255 is outside the model.
\<close>

definition is_space :: "char \<Rightarrow> bool" where
  "is_space c =
     (c \<in> set [CHR 0x09, CHR 0x0A, CHR 0x0B, CHR 0x0C, CHR 0x0D, CHR 0x20, CHR 0xA0])"

definition trim :: "string \<Rightarrow> string" where
  "trim s = rev (dropWhile is_space (rev (dropWhile is_space s)))"

definition quoted :: "string \<Rightarrow> string" where
  "quoted s = CHR 0x27 # s @ [CHR 0x27]"

text \<open>A template literal prints a missing string as \<^verbatim>\<open>undefined\<close>.\<close>

definition show_opt :: "string option \<Rightarrow> string" where
  "show_opt s = (case s of None \<Rightarrow> ''undefined'' | Some t \<Rightarrow> t)"

text \<open>\<^verbatim>\<open>name in this._types\<close>\<close>

definition hasType :: "builder \<Rightarrow> string \<Rightarrow> bool" where
  "hasType b name = (property (types b) name \<noteq> Missing)"

definition hasEnum :: "builder \<Rightarrow> enum_obj \<Rightarrow> bool" where
  "hasEnum b e = dhas (enums b) e"

text \<open>
  \<^verbatim>\<open>arr.reduce((p, c) => ({ ...p, ...c }))\<close> with no initial value: a \<^verbatim>\<open>TypeError\<close> on
  the empty array.
\<close>

definition reduce_spread1 :: "('k, 'v) dict list \<Rightarrow> js_error + ('k, 'v) dict" where
  "reduce_spread1 xs =
     (case xs of
        [] \<Rightarrow> Inl (TypeError ''Reduce of empty array with no initial value'')
      | x # rest \<Rightarrow> Inr (foldl spread x rest))"

definition getOrAddEnum ::
  "builder \<Rightarrow> enum_obj \<Rightarrow> string option \<Rightarrow> (js_error + enum_info) \<times> builder" where
  "getOrAddEnum b enum name =
     (case name of
        None \<Rightarrow> (Inl (Error (''Invalid name specified for enum '' @ quoted (show_opt name))), b)
      | Some n \<Rightarrow>
          if n = [] \<or> length (trim n) = 0
          then (Inl (Error (''Invalid name specified for enum '' @ quoted (show_opt name))), b)
          else (case dget (enums b) enum of
                  Some info \<Rightarrow> (Inr info, b)
                | None \<Rightarrow>
                    (case reduce_spread1
                            (map (\<lambda>(name, value).
                                    [(name, \<lparr>v_value = Some value, v_description = None,
                                             v_deprecationReason = None\<rparr>)])
                                 (eentries enum)) of
                       Inl err \<Rightarrow> (Inl err, b)
                     | Inr values \<Rightarrow>
                         (let info = \<lparr>e_name = trim n, e_description = None,
                                      e_target = enum, e_values = values\<rparr>
                          in (Inr info, b\<lparr>enums := dset (enums b) enum info\<rparr>)))))"

section \<open>Declaration API\<close>

text \<open>
  A property decorator is applied to a prototype and a property name; \<open>cn\<close> is
  \<^verbatim>\<open>object.constructor.name\<close> and \<open>pn\<close> is \<^verbatim>\<open>propertyName.toString()\<close>. Each returns the
  registry after its writes.
\<close>

definition description :: "string \<Rightarrow> string \<Rightarrow> string \<Rightarrow> builder \<Rightarrow> builder" where
  "description text cn pn b = assignField b cn pn (\<lambda>f. f\<lparr>f_description := Some text\<rparr>)"

text \<open>\<^verbatim>\<open>FieldArguments = { args?: Hash<ArgumentInfo> }\<close>, itself optional.\<close>

type_synonym field_arguments = "argument_info hash option"

definition field ::
  "type_ref \<Rightarrow> field_arguments option \<Rightarrow> string \<Rightarrow> string \<Rightarrow> builder \<Rightarrow> builder" where
  "field ty args cn pn b =
     (let (target, b1) = getOrAddType b cn;
          b2 = assignField b1 cn pn (\<lambda>f. f\<lparr>f_type := Some ty\<rparr>)
      in case args of
           None \<Rightarrow> b2
         | Some a \<Rightarrow>
             if t_kind target \<noteq> Some KInput
             then assignField b2 cn pn (\<lambda>f. f\<lparr>f_args := a\<rparr>)
             else b2)"

definition resolve :: "js_fn \<Rightarrow> string \<Rightarrow> string \<Rightarrow> builder \<Rightarrow> builder" where
  "resolve resolver cn pn b = assignField b cn pn (\<lambda>f. f\<lparr>f_resolver := Some resolver\<rparr>)"

definition list ::
  "type_ref \<Rightarrow> field_arguments option \<Rightarrow> string \<Rightarrow> string \<Rightarrow> builder \<Rightarrow> builder" where
  "list ty args cn pn b =
     (let b1 = assignField b cn pn (\<lambda>f. f\<lparr>f_type := Some ty\<rparr>);
          b2 = assignField b1 cn pn (\<lambda>f. f\<lparr>f_list := True\<rparr>)
      in case args of
           None \<Rightarrow> b2
         | Some a \<Rightarrow> assignField b2 cn pn (\<lambda>f. f\<lparr>f_args := a\<rparr>))"

definition nonNull :: "string \<Rightarrow> string \<Rightarrow> builder \<Rightarrow> builder" where
  "nonNull cn pn b = assignField b cn pn (\<lambda>f. f\<lparr>f_nonNull := True\<rparr>)"

definition nonNullItems :: "string \<Rightarrow> string \<Rightarrow> builder \<Rightarrow> builder" where
  "nonNullItems cn pn b = assignField b cn pn (\<lambda>f. f\<lparr>f_nonNullItems := True\<rparr>)"

text \<open>A class decorator is applied to the class itself.\<close>

record interface_arguments =
  ia_description :: "string option"
  ia_interfaces :: "iface_ref list option"
  ia_resolveType :: "js_fn option"

record type_arguments =
  ta_description :: "string option"
  ta_interfaces :: "iface_ref list option"
  ta_isTypeOf :: "js_fn option"

record scalar_arguments =
  sa_description :: "string option"
  sa_serialize :: js_fn
  sa_parseValue :: "js_fn option"
  sa_parseLiteral :: "js_fn option"

definition interface :: "interface_arguments option \<Rightarrow> cls \<Rightarrow> builder \<Rightarrow> builder" where
  "interface args object b =
     assignType b (cname object) (\<lambda>t.
       let t1 = t\<lparr>t_kind := Some KInterface, t_target := Some object\<rparr>
       in case args of
            None \<Rightarrow> t1
          | Some a \<Rightarrow> t1\<lparr>t_description := ia_description a, t_interfaces := ia_interfaces a,
                         t_resolveType := ia_resolveType a\<rparr>)"

definition type :: "type_arguments option \<Rightarrow> cls \<Rightarrow> builder \<Rightarrow> builder" where
  "type args object b =
     assignType b (cname object) (\<lambda>t.
       let t1 = t\<lparr>t_kind := Some KType, t_target := Some object\<rparr>
       in case args of
            None \<Rightarrow> t1
          | Some a \<Rightarrow> t1\<lparr>t_description := ta_description a, t_interfaces := ta_interfaces a,
                         t_isTypeOf := ta_isTypeOf a\<rparr>)"

text \<open>\<^verbatim>\<open>InputArguments = { description?: string }\<close>, itself optional.\<close>

definition input :: "string option option \<Rightarrow> cls \<Rightarrow> builder \<Rightarrow> builder" where
  "input args object b =
     assignType b (cname object) (\<lambda>t.
       let t1 = t\<lparr>t_kind := Some KInput, t_target := Some object\<rparr>
       in case args of
            None \<Rightarrow> t1
          | Some d \<Rightarrow> t1\<lparr>t_description := d\<rparr>)"

definition scalar :: "scalar_arguments \<Rightarrow> cls \<Rightarrow> builder \<Rightarrow> builder" where
  "scalar args object b =
     assignType b (cname object) (\<lambda>t.
       t\<lparr>t_kind := Some KScalar, t_target := Some object,
         t_scalar := Some \<lparr>s_name = cname object, s_description = sa_description args,
                           s_serialize = sa_serialize args, s_parseValue = sa_parseValue args,
                           s_parseLiteral = sa_parseLiteral args\<rparr>\<rparr>)"

text \<open>
  A method decorator is applied to an object, a method name and the method's descriptor;
  \<open>cn\<close> is \<^verbatim>\<open>object.constructor.name\<close> and \<open>fn\<close> is \<^verbatim>\<open>descriptor.value\<close>.
\<close>

record resolver_arguments =
  ra_returnType :: return_ref
  ra_description :: "string option"
  ra_args :: "argument_info hash option"

definition query :: "resolver_arguments \<Rightarrow> string \<Rightarrow> string \<Rightarrow> js_fn \<Rightarrow> builder \<Rightarrow> builder" where
  "query args cn methodName fn b =
     assignType b cn (\<lambda>t. t\<lparr>t_queries := dset (t_queries t) methodName
       \<lparr>r_type = ra_returnType args,
        r_config = \<lparr>c_args = ra_args args, c_resolve = Some fn, c_subscribe = None,
                    c_deprecationReason = None, c_description = ra_description args\<rparr>\<rparr>\<rparr>)"

definition mutation :: "resolver_arguments \<Rightarrow> string \<Rightarrow> string \<Rightarrow> js_fn \<Rightarrow> builder \<Rightarrow> builder" where
  "mutation args cn methodName fn b =
     assignType b cn (\<lambda>t. t\<lparr>t_mutations := dset (t_mutations t) methodName
       \<lparr>r_type = ra_returnType args,
        r_config = \<lparr>c_args = ra_args args, c_resolve = Some fn, c_subscribe = None,
                    c_deprecationReason = None, c_description = ra_description args\<rparr>\<rparr>\<rparr>)"

text \<open>\<^verbatim>\<open>SubscriptionArguments\<close> adds the \<^verbatim>\<open>subscribe\<close> hook.\<close>

definition subscription ::
  "resolver_arguments \<Rightarrow> js_fn \<Rightarrow> string \<Rightarrow> string \<Rightarrow> js_fn \<Rightarrow> builder \<Rightarrow> builder" where
  "subscription args subscribe cn methodName fn b =
     assignType b cn (\<lambda>t. t\<lparr>t_subscriptions := dset (t_subscriptions t) methodName
       \<lparr>r_type = ra_returnType args,
        r_config = \<lparr>c_args = ra_args args, c_resolve = Some fn, c_subscribe = Some subscribe,
                    c_deprecationReason = None, c_description = ra_description args\<rparr>\<rparr>\<rparr>)"

record enum_decoration_arguments =
  ea_name :: "string option"
  ea_description :: "string option"
  ea_values :: "enum_value_info hash option"

text \<open>
  One step of the \<^verbatim>\<open>forEach\<close> of \<^verbatim>\<open>decorateEnum\<close>: the entry is created empty when it is
  missing, then its description and deprecation reason are assigned.
\<close>

definition describeValue :: "string \<times> enum_value_info \<Rightarrow> enum_info \<Rightarrow> enum_info" where
  "describeValue = (\<lambda>(name, value) info.
     let old = (case dget (e_values info) name of
                  Some v \<Rightarrow> v
                | None \<Rightarrow> \<lparr>v_value = None, v_description = None, v_deprecationReason = None\<rparr>)
     in info\<lparr>e_values := dset (e_values info) name
               (old\<lparr>v_description := v_description value,
                    v_deprecationReason := v_deprecationReason value\<rparr>)\<rparr>)"

text \<open>
  \<^verbatim>\<open>decorateEnum\<close> returns nothing; the result is the error it throws, if any, and the
  registry it leaves.
\<close>

definition decorateEnum ::
  "enum_obj \<Rightarrow> enum_decoration_arguments \<Rightarrow> builder \<Rightarrow> (js_error + unit) \<times> builder" where
  "decorateEnum object args b =
     (case getOrAddEnum b object (ea_name args) of
        (Inl err, b1) \<Rightarrow> (Inl err, b1)
      | (Inr info, b1) \<Rightarrow>
          (let info1 = info\<lparr>e_description := ea_description args\<rparr>;
               info2 = (case ea_values args of
                          None \<Rightarrow> info1
                        | Some vs \<Rightarrow> fold describeValue vs info1)
           in (Inr (), b1\<lparr>enums := dset (enums b1) object info2\<rparr>)))"

section \<open>Schema compiler (build)\<close>

text \<open>
  What \<^verbatim>\<open>build()\<close> constructs. A \<^verbatim>\<open>fields\<close> or \<^verbatim>\<open>interfaces\<close> thunk is the closure the
  source creates, kept as data: the record \<^verbatim>\<open>info\<close> and the converter it captured, or
  the finished map of a root object. The schema library calls these thunks; what they
  return is computed by \<open>getFields\<close> and \<open>getInterfaces\<close> below.
\<close>

record gql_enum =
  ge_name :: string
  ge_description :: "string option"
  ge_values :: "enum_value_info hash"

record gql_argument =
  ga_type :: gql_type
  ga_defaultValue :: "js_value option"
  ga_description :: "string option"

record gql_field =
  gf_name :: "string option"
  gf_type :: gql_type
  gf_args :: "gql_argument hash option"
  gf_resolve :: "js_fn option"
  gf_subscribe :: "js_fn option"
  gf_deprecationReason :: "string option"
  gf_description :: "string option"

datatype converter = ConvertOutputType | ConvertInputType

datatype fields_thunk = GetFields type_info converter | FieldMap "gql_field hash"

datatype interfaces_thunk = GetInterfaces type_info

record gql_input_object =
  gi_name :: string
  gi_description :: "string option"
  gi_fields :: fields_thunk

record gql_interface =
  gn_name :: string
  gn_description :: "string option"
  gn_resolveType :: "js_fn option"
  gn_fields :: fields_thunk

record gql_object =
  go_name :: string
  go_description :: "string option"
  go_isTypeOf :: "js_fn option"
  go_fields :: fields_thunk
  go_interfaces :: "interfaces_thunk option"

text \<open>The five local tables of \<^verbatim>\<open>build()\<close>.\<close>

record tables =
  tb_interfaces :: "gql_interface hash"
  tb_objects :: "gql_object hash"
  tb_inputs :: "gql_input_object hash"
  tb_enums :: "gql_enum hash"
  tb_scalars :: "gql_scalar option hash"

text \<open>
  The schema: the three root objects handed to \<^verbatim>\<open>GraphQLSchema\<close> (\<open>None\<close> is
  \<^verbatim>\<open>null\<close>), with the tables their thunks close over.
\<close>

record gql_schema =
  sc_query :: "gql_object option"
  sc_mutation :: "gql_object option"
  sc_subscription :: "gql_object option"
  sc_tables :: tables

subsection \<open>Enum materialization\<close>

definition makeEnumType :: "enum_info \<Rightarrow> gql_enum" where
  "makeEnumType e =
     \<lparr>ge_name = e_name e, ge_description = e_description e,
      ge_values = reduce_spread
        (map (\<lambda>(name, v). [(name, \<lparr>v_value = v_value v, v_description = v_description v,
                                      v_deprecationReason = v_deprecationReason v\<rparr>)])
             (e_values e))\<rparr>"

definition buildEnums :: "builder \<Rightarrow> gql_enum hash" where
  "buildEnums b = fold (\<lambda>(k, e) acc. dset acc (e_name e) (makeEnumType e)) (enums b) []"

subsection \<open>Wrapping types of the schema library\<close>

text \<open>
  The constructors \<^verbatim>\<open>GraphQLNonNull\<close> and \<^verbatim>\<open>GraphQLList\<close> belong to the schema library
  (graphql 14, the version \<^verbatim>\<open>package.json\<close> asks for), which is not part of the
  repository. \<^verbatim>\<open>new GraphQLList(t)\<close> throws unless \<open>t\<close> is a schema type, and
  \<^verbatim>\<open>new GraphQLNonNull(t)\<close> throws unless \<open>t\<close> is a schema type that is not non-null
  already. \<^verbatim>\<open>undefined\<close> and the objects \<open>GForeign\<close> are no schema types.
\<close>

definition isType :: "gql_type \<Rightarrow> bool" where
  "isType ty = (case ty of GUndefined \<Rightarrow> False | GForeign f \<Rightarrow> False | _ \<Rightarrow> True)"

definition isNonNull :: "gql_type \<Rightarrow> bool" where
  "isNonNull ty = (case ty of GNonNull t \<Rightarrow> True | _ \<Rightarrow> False)"

definition newGraphQLNonNull :: "gql_type \<Rightarrow> js_error + gql_type" where
  "newGraphQLNonNull ofType =
     (if isType ofType \<and> \<not> isNonNull ofType then Inr (GNonNull ofType)
      else Inl (LibraryError (NotNullable ofType)))"

definition newGraphQLList :: "gql_type \<Rightarrow> js_error + gql_type" where
  "newGraphQLList ofType =
     (if isType ofType then Inr (GList ofType) else Inl (LibraryError (NotAType ofType)))"

subsection \<open>Deferred-reference resolution\<close>

text \<open>A table entry that is missing, or \<^verbatim>\<open>undefined\<close>, is falsy.\<close>

definition truthy :: "'v option hash \<Rightarrow> string \<Rightarrow> bool" where
  "truthy h k = (case dget h k of Some (Some v) \<Rightarrow> True | _ \<Rightarrow> False)"

text \<open>
  \<^verbatim>\<open>table[name]\<close> when it is truthy: the type that the table holds under the name (\<open>mk\<close>
  makes the reference to it), or the property that the table inherits. The table of
  scalars may hold \<^verbatim>\<open>undefined\<close> under a name.
\<close>

definition entry :: "(string \<Rightarrow> gql_type) \<Rightarrow> 'v hash \<Rightarrow> string \<Rightarrow> gql_type option" where
  "entry mk h name =
     (case property h name of
        Own v \<Rightarrow> Some (mk name)
      | Inherited \<Rightarrow> Some (GForeign (PrototypeMember name))
      | Missing \<Rightarrow> None)"

definition scalarEntry :: "gql_scalar option hash \<Rightarrow> string \<Rightarrow> gql_type option" where
  "scalarEntry h name =
     (case property h name of
        Own v \<Rightarrow> (case v of Some s \<Rightarrow> Some (GScalarType name) | None \<Rightarrow> None)
      | Inherited \<Rightarrow> Some (GForeign (PrototypeMember name))
      | Missing \<Rightarrow> None)"

text \<open>\<^verbatim>\<open>table[name]\<close> as a value: \<^verbatim>\<open>undefined\<close> when there is no such property.\<close>

definition orUndefined :: "gql_type option \<Rightarrow> gql_type" where
  "orUndefined v = (case v of Some ty \<Rightarrow> ty | None \<Rightarrow> GUndefined)"

definition outputByName :: "builder \<Rightarrow> tables \<Rightarrow> string \<Rightarrow> js_error + gql_type" where
  "outputByName b tb name =
     (case entry GEnumType (tb_enums tb) name of
        Some ty \<Rightarrow> Inr ty
      | None \<Rightarrow>
          (case entry GInterfaceType (tb_interfaces tb) name of
             Some ty \<Rightarrow> Inr ty
           | None \<Rightarrow>
               (case scalarEntry (tb_scalars tb) name of
                  Some ty \<Rightarrow> Inr ty
                | None \<Rightarrow>
                    if \<not> hasType b name
                    then Inl (Error (''Type '' @ quoted name @ '' not defined''))
                    else Inr (orUndefined (entry GObjectType (tb_objects tb) name)))))"

text \<open>
  A type object and a field record are no keys of the \<^verbatim>\<open>Map\<close> of enums, so
  \<^verbatim>\<open>builder.hasEnum\<close> is false of them.
\<close>

definition convertOutputType :: "builder \<Rightarrow> tables \<Rightarrow> type_ref \<Rightarrow> js_error + gql_type" where
  "convertOutputType b tb ty =
     (case ty of
        TThunk c \<Rightarrow> outputByName b tb (cname c)
      | TName name \<Rightarrow> outputByName b tb name
      | TEnumObject e \<Rightarrow>
          (case dget (enums b) e of
             Some info \<Rightarrow> Inr (orUndefined (entry GEnumType (tb_enums tb) (e_name info)))
           | None \<Rightarrow> Inr (GForeign (RawEnum e)))
      | TGraphQL g \<Rightarrow> Inr g
      | TFieldRecord n \<Rightarrow> Inr (GForeign (RawFieldRecord n)))"

definition inputByName :: "tables \<Rightarrow> string \<Rightarrow> gql_type" where
  "inputByName tb name =
     (case entry GEnumType (tb_enums tb) name of
        Some ty \<Rightarrow> ty
      | None \<Rightarrow>
          (case scalarEntry (tb_scalars tb) name of
             Some ty \<Rightarrow> ty
           | None \<Rightarrow> orUndefined (entry GInputObjectType (tb_inputs tb) name)))"

definition convertInputType :: "builder \<Rightarrow> tables \<Rightarrow> type_ref \<Rightarrow> gql_type" where
  "convertInputType b tb ty =
     (case ty of
        TThunk c \<Rightarrow> inputByName tb (cname c)
      | TName name \<Rightarrow> inputByName tb name
      | TEnumObject e \<Rightarrow>
          (case dget (enums b) e of
             Some info \<Rightarrow> inputByName tb (e_name info)
           | None \<Rightarrow> GForeign (RawEnum e))
      | TGraphQL g \<Rightarrow> g
      | TFieldRecord n \<Rightarrow> GForeign (RawFieldRecord n))"

definition runConverter ::
  "builder \<Rightarrow> tables \<Rightarrow> converter \<Rightarrow> type_ref \<Rightarrow> js_error + gql_type" where
  "runConverter b tb conv ty =
     (case conv of
        ConvertOutputType \<Rightarrow> convertOutputType b tb ty
      | ConvertInputType \<Rightarrow> Inr (convertInputType b tb ty))"

subsection \<open>Field-type wrapping\<close>

text \<open>
  The argument is a field record or a type reference; the source tells them apart by
  \<^verbatim>\<open>typeof fieldInfo === 'object' && 'type' in fieldInfo\<close>. (An enum object with a member
  called \<^verbatim>\<open>type\<close> would pass that test too; it is outside the model.) A field record
  without \<^verbatim>\<open>type\<close> goes to the converter as it is, and none of its modifiers is read.
\<close>

definition convertFieldInfoToType ::
  "return_ref \<Rightarrow> (type_ref \<Rightarrow> js_error + gql_type) \<Rightarrow> js_error + gql_type" where
  "convertFieldInfoToType fieldInfo converter =
     (case fieldInfo of
        RType t \<Rightarrow> converter t
      | RFieldInfo fi \<Rightarrow>
          (case f_type fi of
             None \<Rightarrow> converter (TFieldRecord (f_name fi))
           | Some t \<Rightarrow>
               (case converter t of
                  Inl err \<Rightarrow> Inl err
                | Inr ty \<Rightarrow>
                    (case (if f_nonNullItems fi then newGraphQLNonNull ty else Inr ty) of
                       Inl err \<Rightarrow> Inl err
                     | Inr ty1 \<Rightarrow>
                         (case (if f_list fi then newGraphQLList ty1 else Inr ty1) of
                            Inl err \<Rightarrow> Inl err
                          | Inr ty2 \<Rightarrow>
                              if f_nonNull fi \<and> \<not> isNonNull ty2 then newGraphQLNonNull ty2
                              else Inr ty2)))))"

definition convertArguments ::
  "builder \<Rightarrow> tables \<Rightarrow> argument_info hash \<Rightarrow> gql_argument hash" where
  "convertArguments b tb args =
     reduce_spread
       (map (\<lambda>(name, arg).
               [(name, \<lparr>ga_type = convertInputType b tb (a_type arg),
                        ga_defaultValue = a_defaultValue arg,
                        ga_description = a_description arg\<rparr>)])
            args)"

subsection \<open>Field-set assembly\<close>

text \<open>\<^verbatim>\<open>xs.map(f)\<close> where \<open>f\<close> may throw: the first error ends the loop.\<close>

fun mapE :: "('a \<Rightarrow> 'e + 'b) \<Rightarrow> 'a list \<Rightarrow> 'e + 'b list" where
  "mapE f [] = Inr []"
| "mapE f (x # xs) =
     (case f x of
        Inl err \<Rightarrow> Inl err
      | Inr y \<Rightarrow> (case mapE f xs of Inl err \<Rightarrow> Inl err | Inr ys \<Rightarrow> Inr (y # ys)))"

text \<open>The registered records of the inheritance chain of a class, root first.\<close>

definition parentsOf :: "builder \<Rightarrow> cls \<Rightarrow> type_info list" where
  "parentsOf b target = List.map_filter (findByClass b) (rev (getInheritanceTree target))"

definition mergedFields :: "builder \<Rightarrow> cls \<Rightarrow> field_info hash" where
  "mergedFields b target = reduce_spread (map t_fields (parentsOf b target))"

definition makeField ::
  "builder \<Rightarrow> tables \<Rightarrow> type_info \<Rightarrow> converter \<Rightarrow> string \<times> field_info
     \<Rightarrow> js_error + gql_field hash" where
  "makeField b tb info conv = (\<lambda>(name, fieldInfo).
     case convertFieldInfoToType (RFieldInfo fieldInfo) (runConverter b tb conv) of
       Inl err \<Rightarrow> Inl err
     | Inr ty \<Rightarrow>
         Inr [(name,
               \<lparr>gf_name = Some name, gf_type = ty,
                gf_args = (case f_args fieldInfo of
                             Some a \<Rightarrow> Some (convertArguments b tb a)
                           | None \<Rightarrow> None),
                gf_resolve = (if t_kind info = Some KInput then None else f_resolver fieldInfo),
                gf_subscribe = None, gf_deprecationReason = None,
                gf_description = f_description fieldInfo\<rparr>)])"

text \<open>
  What the thunk \<^verbatim>\<open>getFields(converter)\<close> of the record \<open>info\<close> returns when it is called.
  \<^verbatim>\<open>Object.getPrototypeOf\<close> throws on a missing target.
\<close>

definition getFields ::
  "builder \<Rightarrow> tables \<Rightarrow> type_info \<Rightarrow> converter \<Rightarrow> js_error + gql_field hash" where
  "getFields b tb info conv =
     (case t_target info of
        None \<Rightarrow> Inl (TypeError ''Cannot convert undefined or null to object'')
      | Some target \<Rightarrow>
          (case mapE (makeField b tb info conv) (mergedFields b target) of
             Inl err \<Rightarrow> Inl err
           | Inr rs \<Rightarrow> Inr (reduce_spread rs)))"

definition show_iface :: "iface_ref \<Rightarrow> string" where
  "show_iface r = (case r of IName s \<Rightarrow> s | IClass c \<Rightarrow> csource c | IGraphQL n \<Rightarrow> n)"

definition resolveInterface :: "tables \<Rightarrow> iface_ref \<Rightarrow> js_error + gql_type" where
  "resolveInterface tb r =
     (case r of
        IName s \<Rightarrow>
          (case entry GInterfaceType (tb_interfaces tb) s of
             Some ty \<Rightarrow> Inr ty
           | None \<Rightarrow> Inl (Error (''Interface '' @ quoted (show_iface r) @ '' not defined'')))
      | IClass c \<Rightarrow>
          (case entry GInterfaceType (tb_interfaces tb) (cname c) of
             Some ty \<Rightarrow> Inr ty
           | None \<Rightarrow> Inl (Error (''Interface '' @ quoted (show_iface r) @ '' not defined'')))
      | IGraphQL n \<Rightarrow> Inl (Error (''Interface '' @ quoted (show_iface r) @ '' not defined'')))"

text \<open>What the \<^verbatim>\<open>interfaces\<close> thunk of an object type returns when it is called.\<close>

definition getInterfaces :: "tables \<Rightarrow> type_info \<Rightarrow> js_error + gql_type list" where
  "getInterfaces tb info =
     (case t_interfaces info of
        None \<Rightarrow> Inr []
      | Some refs \<Rightarrow> mapE (resolveInterface tb) refs)"

subsection \<open>Materialization of the registered types\<close>

definition addType :: "string \<times> type_info \<Rightarrow> tables \<Rightarrow> tables" where
  "addType = (\<lambda>(name, info) tb.
     case t_kind info of
       None \<Rightarrow> tb
     | Some KScalar \<Rightarrow> tb\<lparr>tb_scalars := dset (tb_scalars tb) name (t_scalar info)\<rparr>
     | Some KInput \<Rightarrow>
         tb\<lparr>tb_inputs := dset (tb_inputs tb) name
              \<lparr>gi_name = name, gi_description = t_description info,
               gi_fields = GetFields info ConvertInputType\<rparr>\<rparr>
     | Some KInterface \<Rightarrow>
         tb\<lparr>tb_interfaces := dset (tb_interfaces tb) name
              \<lparr>gn_name = name, gn_description = t_description info,
               gn_resolveType = t_resolveType info,
               gn_fields = GetFields info ConvertOutputType\<rparr>\<rparr>
     | Some KType \<Rightarrow>
         tb\<lparr>tb_objects := dset (tb_objects tb) name
              \<lparr>go_name = name, go_description = t_description info,
               go_isTypeOf = t_isTypeOf info,
               go_fields = GetFields info ConvertOutputType,
               go_interfaces = Some (GetInterfaces info)\<rparr>\<rparr>)"

definition buildTables :: "builder \<Rightarrow> tables" where
  "buildTables b =
     fold addType (types b)
       \<lparr>tb_interfaces = [], tb_objects = [], tb_inputs = [], tb_enums = buildEnums b,
        tb_scalars = []\<rparr>"

subsection \<open>Root operation assembly\<close>

text \<open>\<^verbatim>\<open>xs.forEach(f)\<close> on an accumulator where \<open>f\<close> may throw.\<close>

fun foldE :: "('a \<Rightarrow> 's \<Rightarrow> 'e + 's) \<Rightarrow> 'a list \<Rightarrow> 's \<Rightarrow> 'e + 's" where
  "foldE f [] s = Inr s"
| "foldE f (x # xs) s = (case f x s of Inl err \<Rightarrow> Inl err | Inr s' \<Rightarrow> foldE f xs s')"

definition addOperation ::
  "builder \<Rightarrow> tables \<Rightarrow> string \<times> resolver_info \<Rightarrow> gql_field hash
     \<Rightarrow> js_error + gql_field hash" where
  "addOperation b tb = (\<lambda>(key, value) acc.
     case convertFieldInfoToType (r_type value) (convertOutputType b tb) of
       Inl err \<Rightarrow> Inl err
     | Inr ty \<Rightarrow>
         Inr (dset acc key
               \<lparr>gf_name = None, gf_type = ty,
                gf_args = Some (case c_args (r_config value) of
                                  Some a \<Rightarrow> convertArguments b tb a
                                | None \<Rightarrow> []),
                gf_resolve = c_resolve (r_config value),
                gf_subscribe = c_subscribe (r_config value),
                gf_deprecationReason = c_deprecationReason (r_config value),
                gf_description = c_description (r_config value)\<rparr>))"

text \<open>The body of the second loop over the registered types, on the three operation maps.\<close>

definition addOperations ::
  "builder \<Rightarrow> tables \<Rightarrow> string \<times> type_info
     \<Rightarrow> gql_field hash \<times> gql_field hash \<times> gql_field hash
     \<Rightarrow> js_error + gql_field hash \<times> gql_field hash \<times> gql_field hash" where
  "addOperations b tb = (\<lambda>(name, info) (queries, mutations, subscriptions).
     case foldE (addOperation b tb) (t_queries info) queries of
       Inl err \<Rightarrow> Inl err
     | Inr queries' \<Rightarrow>
         (case foldE (addOperation b tb) (t_mutations info) mutations of
            Inl err \<Rightarrow> Inl err
          | Inr mutations' \<Rightarrow>
              (case foldE (addOperation b tb) (t_subscriptions info) subscriptions of
                 Inl err \<Rightarrow> Inl err
               | Inr subscriptions' \<Rightarrow> Inr (queries', mutations', subscriptions'))))"

definition rootObject :: "string \<Rightarrow> gql_field hash \<Rightarrow> gql_object" where
  "rootObject name fs =
     \<lparr>go_name = name, go_description = None, go_isTypeOf = None,
      go_fields = FieldMap fs, go_interfaces = None\<rparr>"

section \<open>build() as calls on the builder\<close>

text \<open>
  The functions of the last section take the registry as an argument. \<^verbatim>\<open>build()\<close> itself
  reaches the registry through five members of the builder and through nothing else: the
  getters \<^verbatim>\<open>types\<close> and \<^verbatim>\<open>enums\<close> and the methods \<^verbatim>\<open>hasType\<close>, \<^verbatim>\<open>hasEnum\<close> and
  \<^verbatim>\<open>findByClass\<close>. Every assignment in its body is to one of its locals: the five tables, the
  three operation maps, the variables \<^verbatim>\<open>name\<close> and \<^verbatim>\<open>type\<close>, the accumulators of its
  \<^verbatim>\<open>reduce\<close> calls and the object \<^verbatim>\<open>result\<close> that \<^verbatim>\<open>getFields\<close> has just made.

  An action is a computation on the registry: it takes the registry, and gives what it
  returns or throws together with the registry it leaves. In this section the functions of
  \<^verbatim>\<open>build()\<close> are written once more, as actions in which each call on the builder is a step
  (the names end in \<open>M\<close>), and \<open>build\<close> is defined from them. That they compute what the
  functions of the last section compute is proved below.
\<close>

type_synonym 'a action = "builder \<Rightarrow> (js_error + 'a) \<times> builder"

definition returnM :: "'a \<Rightarrow> 'a action" where
  "returnM x = (\<lambda>b. (Inr x, b))"

definition throwM :: "js_error \<Rightarrow> 'a action" where
  "throwM err = (\<lambda>b. (Inl err, b))"

definition bindM :: "'a action \<Rightarrow> ('a \<Rightarrow> 'b action) \<Rightarrow> 'b action" where
  "bindM m f = (\<lambda>b. case m b of (Inl err, b') \<Rightarrow> (Inl err, b') | (Inr x, b') \<Rightarrow> f x b')"

text \<open>A computation that does not touch the builder.\<close>

definition liftE :: "js_error + 'a \<Rightarrow> 'a action" where
  "liftE r = (\<lambda>b. (r, b))"

fun mapM :: "('a \<Rightarrow> 'b action) \<Rightarrow> 'a list \<Rightarrow> 'b list action" where
  "mapM f [] = returnM []"
| "mapM f (x # xs) = bindM (f x) (\<lambda>y. bindM (mapM f xs) (\<lambda>ys. returnM (y # ys)))"

fun foldM :: "('a \<Rightarrow> 's \<Rightarrow> 's action) \<Rightarrow> 'a list \<Rightarrow> 's \<Rightarrow> 's action" where
  "foldM f [] s = returnM s"
| "foldM f (x # xs) s = bindM (f x s) (foldM f xs)"

subsection \<open>The members of the builder that build() uses\<close>

definition get_types :: "type_info hash action" where
  "get_types = (\<lambda>b. (Inr (types b), b))"

definition get_enums :: "(enum_obj, enum_info) dict action" where
  "get_enums = (\<lambda>b. (Inr (enums b), b))"

definition hasTypeM :: "string \<Rightarrow> bool action" where
  "hasTypeM name = (\<lambda>b. (Inr (hasType b name), b))"

definition hasEnumM :: "enum_obj \<Rightarrow> bool action" where
  "hasEnumM e = (\<lambda>b. (Inr (hasEnum b e), b))"

definition findByClassM :: "cls \<Rightarrow> type_info option action" where
  "findByClassM target = (\<lambda>b. (Inr (findByClass b target), b))"

subsection \<open>The body of build()\<close>

definition buildEnumsM :: "gql_enum hash action" where
  "buildEnumsM =
     bindM get_enums (\<lambda>es.
       returnM (fold (\<lambda>(k, e) acc. dset acc (e_name e) (makeEnumType e)) es []))"

definition outputByNameM :: "tables \<Rightarrow> string \<Rightarrow> gql_type action" where
  "outputByNameM tb name =
     (case entry GEnumType (tb_enums tb) name of
        Some ty \<Rightarrow> returnM ty
      | None \<Rightarrow>
          (case entry GInterfaceType (tb_interfaces tb) name of
             Some ty \<Rightarrow> returnM ty
           | None \<Rightarrow>
               (case scalarEntry (tb_scalars tb) name of
                  Some ty \<Rightarrow> returnM ty
                | None \<Rightarrow>
                    bindM (hasTypeM name) (\<lambda>known.
                      if \<not> known
                      then throwM (Error (''Type '' @ quoted name @ '' not defined''))
                      else returnM (orUndefined (entry GObjectType (tb_objects tb) name))))))"

text \<open>
  \<^verbatim>\<open>builder.enums.get(type)!.name\<close> after \<^verbatim>\<open>builder.hasEnum(type)\<close>: the getter, then
  \<^verbatim>\<open>Map.get\<close>; reading \<^verbatim>\<open>name\<close> of a missing record would throw.
\<close>

definition enumNameM :: "enum_obj \<Rightarrow> string action" where
  "enumNameM e =
     bindM get_enums (\<lambda>es.
       case dget es e of
         Some info \<Rightarrow> returnM (e_name info)
       | None \<Rightarrow> throwM (TypeError (''Cannot read property '' @ quoted ''name'' @ '' of undefined'')))"

definition convertOutputTypeM :: "tables \<Rightarrow> type_ref \<Rightarrow> gql_type action" where
  "convertOutputTypeM tb ty =
     (case ty of
        TThunk c \<Rightarrow> outputByNameM tb (cname c)
      | TName name \<Rightarrow> outputByNameM tb name
      | TEnumObject e \<Rightarrow>
          bindM (hasEnumM e) (\<lambda>known.
            if known
            then bindM (enumNameM e) (\<lambda>name.
                   returnM (orUndefined (entry GEnumType (tb_enums tb) name)))
            else returnM (GForeign (RawEnum e)))
      | TGraphQL g \<Rightarrow> returnM g
      | TFieldRecord n \<Rightarrow> returnM (GForeign (RawFieldRecord n)))"

definition convertInputTypeM :: "tables \<Rightarrow> type_ref \<Rightarrow> gql_type action" where
  "convertInputTypeM tb ty =
     (case ty of
        TThunk c \<Rightarrow> returnM (inputByName tb (cname c))
      | TName name \<Rightarrow> returnM (inputByName tb name)
      | TEnumObject e \<Rightarrow>
          bindM (hasEnumM e) (\<lambda>known.
            if known
            then bindM (enumNameM e) (\<lambda>name. returnM (inputByName tb name))
            else returnM (GForeign (RawEnum e)))
      | TGraphQL g \<Rightarrow> returnM g
      | TFieldRecord n \<Rightarrow> returnM (GForeign (RawFieldRecord n)))"

definition runConverterM :: "tables \<Rightarrow> converter \<Rightarrow> type_ref \<Rightarrow> gql_type action" where
  "runConverterM tb conv ty =
     (case conv of
        ConvertOutputType \<Rightarrow> convertOutputTypeM tb ty
      | ConvertInputType \<Rightarrow> convertInputTypeM tb ty)"

definition convertFieldInfoToTypeM ::
  "return_ref \<Rightarrow> (type_ref \<Rightarrow> gql_type action) \<Rightarrow> gql_type action" where
  "convertFieldInfoToTypeM fieldInfo converter =
     (case fieldInfo of
        RType t \<Rightarrow> converter t
      | RFieldInfo fi \<Rightarrow>
          (case f_type fi of
             None \<Rightarrow> converter (TFieldRecord (f_name fi))
           | Some t \<Rightarrow>
               bindM (converter t) (\<lambda>ty.
               bindM (if f_nonNullItems fi then liftE (newGraphQLNonNull ty) else returnM ty)
                 (\<lambda>ty1.
               bindM (if f_list fi then liftE (newGraphQLList ty1) else returnM ty1)
                 (\<lambda>ty2.
               if f_nonNull fi \<and> \<not> isNonNull ty2 then liftE (newGraphQLNonNull ty2)
               else returnM ty2)))))"

definition convertArgumentsM :: "tables \<Rightarrow> argument_info hash \<Rightarrow> gql_argument hash action" where
  "convertArgumentsM tb args =
     bindM (mapM (\<lambda>(name, arg).
                    bindM (convertInputTypeM tb (a_type arg)) (\<lambda>ty.
                      returnM [(name, \<lparr>ga_type = ty, ga_defaultValue = a_defaultValue arg,
                                       ga_description = a_description arg\<rparr>)]))
                 args)
       (\<lambda>xs. returnM (reduce_spread xs))"

definition makeFieldM ::
  "tables \<Rightarrow> type_info \<Rightarrow> converter \<Rightarrow> string \<times> field_info \<Rightarrow> gql_field hash action" where
  "makeFieldM tb info conv = (\<lambda>(name, fieldInfo).
     bindM (convertFieldInfoToTypeM (RFieldInfo fieldInfo) (runConverterM tb conv)) (\<lambda>ty.
     bindM (case f_args fieldInfo of
              Some a \<Rightarrow> bindM (convertArgumentsM tb a) (\<lambda>args. returnM (Some args))
            | None \<Rightarrow> returnM None)
       (\<lambda>args.
     returnM [(name,
               \<lparr>gf_name = Some name, gf_type = ty, gf_args = args,
                gf_resolve = (if t_kind info = Some KInput then None else f_resolver fieldInfo),
                gf_subscribe = None, gf_deprecationReason = None,
                gf_description = f_description fieldInfo\<rparr>)])))"

definition getFieldsM :: "tables \<Rightarrow> type_info \<Rightarrow> converter \<Rightarrow> gql_field hash action" where
  "getFieldsM tb info conv =
     (case t_target info of
        None \<Rightarrow> throwM (TypeError ''Cannot convert undefined or null to object'')
      | Some target \<Rightarrow>
          bindM (mapM findByClassM (rev (getInheritanceTree target))) (\<lambda>found.
          bindM (mapM (makeFieldM tb info conv)
                   (reduce_spread (map t_fields (List.map_filter id found))))
            (\<lambda>rs. returnM (reduce_spread rs))))"

definition buildTablesM :: "tables action" where
  "buildTablesM =
     bindM buildEnumsM (\<lambda>es.
     bindM get_types (\<lambda>ts.
       returnM (fold addType ts
                 \<lparr>tb_interfaces = [], tb_objects = [], tb_inputs = [], tb_enums = es,
                  tb_scalars = []\<rparr>)))"

definition addOperationM ::
  "tables \<Rightarrow> string \<times> resolver_info \<Rightarrow> gql_field hash \<Rightarrow> gql_field hash action" where
  "addOperationM tb = (\<lambda>(key, value) acc.
     bindM (convertFieldInfoToTypeM (r_type value) (convertOutputTypeM tb)) (\<lambda>ty.
     bindM (case c_args (r_config value) of
              Some a \<Rightarrow> convertArgumentsM tb a
            | None \<Rightarrow> returnM [])
       (\<lambda>args.
     returnM (dset acc key
               \<lparr>gf_name = None, gf_type = ty, gf_args = Some args,
                gf_resolve = c_resolve (r_config value),
                gf_subscribe = c_subscribe (r_config value),
                gf_deprecationReason = c_deprecationReason (r_config value),
                gf_description = c_description (r_config value)\<rparr>))))"

definition addOperationsM ::
  "tables \<Rightarrow> string \<times> type_info
     \<Rightarrow> gql_field hash \<times> gql_field hash \<times> gql_field hash
     \<Rightarrow> (gql_field hash \<times> gql_field hash \<times> gql_field hash) action" where
  "addOperationsM tb = (\<lambda>(name, info) (queries, mutations, subscriptions).
     bindM (foldM (addOperationM tb) (t_queries info) queries) (\<lambda>queries'.
     bindM (foldM (addOperationM tb) (t_mutations info) mutations) (\<lambda>mutations'.
     bindM (foldM (addOperationM tb) (t_subscriptions info) subscriptions) (\<lambda>subscriptions'.
       returnM (queries', mutations', subscriptions')))))"

subsection \<open>The constructor of the schema\<close>

text \<open>
  \<^verbatim>\<open>new GraphQLSchema\<close> belongs to the schema library. It collects the types of the schema
  at once: from the root objects it is given (\<^verbatim>\<open>null\<close> is skipped), and then from its own
  introspection types, it visits every type they refer to, depth first. \<^verbatim>\<open>undefined\<close> is
  skipped and a wrapper is visited through the type it wraps. A named type met for the
  first time is entered in the type map under its name; then the interfaces of an object
  type are visited, and then, for each field of an object, interface or input object type,
  the types of its arguments and the type of the field. This is where the thunks that
  \<^verbatim>\<open>build()\<close> made are called, each at most once, and what a thunk throws \<^verbatim>\<open>build()\<close>
  throws. A named type met again must be the object that the type map holds under its
  name; the library throws when it is another object of that name.

  The run is the stack of what is still to do: \<open>Visit\<close> a type, \<open>VisitRoot\<close> a root object,
  or call a \<^verbatim>\<open>fields\<close> thunk (\<open>Fields\<close>, with the flag of an input object type, whose fields
  have no arguments); the thunk of an object type is called after its interfaces have been
  visited. A type that \<^verbatim>\<open>build()\<close> made is identified by its kind and name, a root object by
  its name.
\<close>

datatype node = RootNode string | TypeNode gql_type

datatype item = VisitRoot gql_object | Visit gql_type | Fields fields_thunk bool

definition introspectionTypes :: "gql_type list" where
  "introspectionTypes =
     map GGiven [''__Schema'', ''__Type'', ''__TypeKind'', ''String'', ''Boolean'', ''__Field'',
                 ''__InputValue'', ''__EnumValue'', ''__Directive'', ''__DirectiveLocation'']"

definition typeName :: "gql_type \<Rightarrow> string option" where
  "typeName ty =
     (case ty of
        GGiven n \<Rightarrow> Some n
      | GEnumType n \<Rightarrow> Some n
      | GInterfaceType n \<Rightarrow> Some n
      | GScalarType n \<Rightarrow> Some n
      | GObjectType n \<Rightarrow> Some n
      | GInputObjectType n \<Rightarrow> Some n
      | _ \<Rightarrow> None)"

definition fieldTypes :: "gql_field hash \<Rightarrow> gql_type list" where
  "fieldTypes fs =
     concat (map (\<lambda>(name, f).
                    (case gf_args f of
                       None \<Rightarrow> []
                     | Some args \<Rightarrow> map (\<lambda>(n, a). ga_type a) args) @ [gf_type f])
                 fs)"

definition inputFieldTypes :: "gql_field hash \<Rightarrow> gql_type list" where
  "inputFieldTypes fs = map (\<lambda>(name, f). gf_type f) fs"

definition runFieldsM :: "tables \<Rightarrow> fields_thunk \<Rightarrow> gql_field hash action" where
  "runFieldsM tb thunk =
     (case thunk of
        GetFields info conv \<Rightarrow> getFieldsM tb info conv
      | FieldMap fs \<Rightarrow> returnM fs)"

definition runInterfaces :: "tables \<Rightarrow> interfaces_thunk option \<Rightarrow> js_error + gql_type list" where
  "runInterfaces tb thunk =
     (case thunk of
        None \<Rightarrow> Inr []
      | Some (GetInterfaces info) \<Rightarrow> getInterfaces tb info)"

text \<open>What is to do for an object type that has just been entered in the type map.\<close>

definition enterObject :: "tables \<Rightarrow> gql_object \<Rightarrow> js_error + item list" where
  "enterObject tb obj =
     (case runInterfaces tb (go_interfaces obj) of
        Inl err \<Rightarrow> Inl err
      | Inr ifaces \<Rightarrow> Inr (map Visit ifaces @ [Fields (go_fields obj) False]))"

definition enterType :: "tables \<Rightarrow> gql_type \<Rightarrow> js_error + item list" where
  "enterType tb ty =
     (case ty of
        GObjectType name \<Rightarrow>
          (case dget (tb_objects tb) name of
             Some obj \<Rightarrow> enterObject tb obj
           | None \<Rightarrow> Inr [])
      | GInterfaceType name \<Rightarrow>
          (case dget (tb_interfaces tb) name of
             Some iface \<Rightarrow> Inr [Fields (gn_fields iface) False]
           | None \<Rightarrow> Inr [])
      | GInputObjectType name \<Rightarrow>
          (case dget (tb_inputs tb) name of
             Some inp \<Rightarrow> Inr [Fields (gi_fields inp) True]
           | None \<Rightarrow> Inr [])
      | _ \<Rightarrow> Inr [])"

text \<open>One step: the type map after it, and what it puts on the stack.\<close>

definition stepM :: "tables \<Rightarrow> node hash \<Rightarrow> item \<Rightarrow> (node hash \<times> item list) action" where
  "stepM tb typeMap it =
     (case it of
        VisitRoot obj \<Rightarrow>
          if dhas typeMap (go_name obj)
          then throwM (LibraryError (DuplicateName (go_name obj)))
          else bindM (liftE (enterObject tb obj)) (\<lambda>items.
                 returnM (dset typeMap (go_name obj) (RootNode (go_name obj)), items))
      | Fields thunk isInput \<Rightarrow>
          bindM (runFieldsM tb thunk) (\<lambda>fs.
            returnM (typeMap, map Visit (if isInput then inputFieldTypes fs else fieldTypes fs)))
      | Visit ty \<Rightarrow>
          (case typeName ty of
             Some name \<Rightarrow>
               (case dget typeMap name of
                  Some known \<Rightarrow>
                    if known = TypeNode ty then returnM (typeMap, [])
                    else throwM (LibraryError (DuplicateName name))
                | None \<Rightarrow>
                    bindM (liftE (enterType tb ty)) (\<lambda>items.
                      returnM (dset typeMap name (TypeNode ty), items)))
           | None \<Rightarrow>
               (case ty of
                  GNonNull t \<Rightarrow> returnM (typeMap, [Visit t])
                | GList t \<Rightarrow> returnM (typeMap, [Visit t])
                | GUndefined \<Rightarrow> returnM (typeMap, [])
                | _ \<Rightarrow> throwM OutsideModel)))"

text \<open>
  The measure of the run: the types of the tables that are not in the type map, the
  thunks still to call, and the size of the types still to visit.
\<close>

definition unvisited :: "tables \<Rightarrow> node hash \<Rightarrow> nat" where
  "unvisited tb typeMap =
     length (filter (\<lambda>n. \<not> dhas typeMap n)
               (dkeys (tb_objects tb) @ dkeys (tb_interfaces tb) @ dkeys (tb_inputs tb)))"

fun calls :: "item \<Rightarrow> nat" where
  "calls (VisitRoot obj) = 2"
| "calls (Fields thunk isInput) = 1"
| "calls (Visit ty) = 0"

fun weight :: "item \<Rightarrow> nat" where
  "weight (Visit ty) = Suc (size ty)"
| "weight (VisitRoot obj) = 0"
| "weight (Fields thunk isInput) = 0"

function typeMapM :: "tables \<Rightarrow> node hash \<Rightarrow> item list \<Rightarrow> node hash action" where
  "typeMapM tb typeMap [] b = (Inr typeMap, b)"
| "typeMapM tb typeMap (it # rest) b =
     (case stepM tb typeMap it b of
        (Inl err, b') \<Rightarrow> (Inl err, b')
      | (Inr (typeMap', items), b') \<Rightarrow> typeMapM tb typeMap' (items @ rest) b')"
  by pat_completeness auto
termination
proof (relation "measures [\<lambda>(tb, typeMap, stack, b). unvisited tb typeMap,
                           \<lambda>(tb, typeMap, stack, b). sum_list (map calls stack),
                           \<lambda>(tb, typeMap, stack, b). sum_list (map weight stack)]")
  show "wf (measures [\<lambda>(tb, typeMap, stack, b). unvisited tb typeMap,
                      \<lambda>(tb, typeMap, stack, b). sum_list (map calls stack),
                      \<lambda>(tb, typeMap, stack, b). sum_list (map weight stack)])"
    by simp
next
  fix tb :: tables and typeMap :: "node hash" and it :: item and rest :: "item list"
    and b y :: builder and x :: "js_error + node hash \<times> item list"
    and ba :: "node hash \<times> item list" and xa :: "node hash" and ya :: "item list"
  assume "(x, y) = stepM tb typeMap it b" and "x = Inr ba" and "(xa, ya) = ba"
  then have step: "stepM tb typeMap it b = (Inr (xa, ya), y)" by simp
  have "dget (dset h k v) k' = (if k' = k then Some v else dget h k')"
    for h :: "node hash" and k v k'
    by (induction h) (auto simp: dget_def)
  then have dg: "dhas (dset h k v) k' \<longleftrightarrow> k' = k \<or> dhas h k'"
    for h :: "node hash" and k v k'
    by (simp add: dhas_def)
  let ?names = "dkeys (tb_objects tb) @ dkeys (tb_interfaces tb) @ dkeys (tb_inputs tb)"
  have eq: "filter (\<lambda>m. \<not> dhas (dset typeMap n nd) m) ?names =
              filter (\<lambda>m. m \<noteq> n) (filter (\<lambda>m. \<not> dhas typeMap m) ?names)" for n nd
    unfolding filter_filter by (rule filter_cong) (auto simp: dg)
  have le: "unvisited tb (dset typeMap n nd) \<le> unvisited tb typeMap" for n nd
    unfolding unvisited_def eq by (rule length_filter_le)
  have lt: "unvisited tb (dset typeMap n nd) < unvisited tb typeMap"
    if "n \<in> set ?names" and "\<not> dhas typeMap n" for n nd
    unfolding unvisited_def eq using that by (intro length_filter_less [of n]) simp_all
  have visits: "sum_list (map calls (map Visit ts)) = 0" for ts
    by (induction ts) simp_all
  have key: "dget h k = Some v \<Longrightarrow> k \<in> set (dkeys h)" for h :: "'v hash" and k v
    by (auto simp: dget_def dkeys_def dest: map_of_SomeD intro: rev_image_eqI)
  have "unvisited tb xa < unvisited tb typeMap
        \<or> (unvisited tb xa = unvisited tb typeMap
            \<and> (sum_list (map calls ya) < calls it
                \<or> (sum_list (map calls ya) = calls it
                    \<and> sum_list (map weight ya) < weight it)))"
  proof (cases it)
    case (VisitRoot obj)
    from step have xa: "xa = dset typeMap (go_name obj) (RootNode (go_name obj))"
      and ya: "enterObject tb obj = Inr ya"
      by (auto simp: VisitRoot stepM_def bindM_def liftE_def returnM_def throwM_def
               split: if_splits sum.splits)
    from ya have "sum_list (map calls ya) = 1"
      by (auto simp: enterObject_def visits split: sum.splits)
    with le [of "go_name obj" "RootNode (go_name obj)"] show ?thesis
      by (auto simp: VisitRoot xa)
  next
    case (Fields thunk isInput)
    from step have "xa = typeMap" and "\<exists>ts. ya = map Visit ts"
      by (auto simp: Fields stepM_def bindM_def returnM_def split: sum.splits prod.splits)
    then show ?thesis by (auto simp: Fields visits)
  next
    case (Visit ty)
    show ?thesis
    proof (cases "typeName ty")
      case None
      with step have "xa = typeMap" and "ya = [] \<or> (\<exists>t. ya = [Visit t] \<and> size t < size ty)"
        by (auto simp: Visit stepM_def returnM_def throwM_def split: gql_type.splits)
      then show ?thesis by (auto simp: Visit)
    next
      case (Some name)
      show ?thesis
      proof (cases "dget typeMap name")
        case (Some known)
        with step \<open>typeName ty = Some name\<close> have "xa = typeMap" and "ya = []"
          by (auto simp: Visit stepM_def returnM_def throwM_def split: if_splits)
        then show ?thesis by (simp add: Visit)
      next
        case None
        then have fresh: "\<not> dhas typeMap name" by (simp add: dhas_def)
        from step None \<open>typeName ty = Some name\<close>
        have xa: "xa = dset typeMap name (TypeNode ty)" and ya: "enterType tb ty = Inr ya"
          by (auto simp: Visit stepM_def bindM_def liftE_def returnM_def throwM_def
                   split: sum.splits)
        show ?thesis
        proof (cases "ya = []")
          case True
          with le [of name "TypeNode ty"] show ?thesis by (auto simp: xa Visit)
        next
          case False
          with ya \<open>typeName ty = Some name\<close> have "name \<in> set ?names"
            by (auto simp: enterType_def typeName_def key
                     split: gql_type.splits option.splits)
          from lt [OF this fresh] show ?thesis by (simp add: xa)
        qed
      qed
    qed
  qed
  then show "((tb, xa, ya @ rest, y), tb, typeMap, it # rest, b)
       \<in> measures [\<lambda>(tb, typeMap, stack, b). unvisited tb typeMap,
                    \<lambda>(tb, typeMap, stack, b). sum_list (map calls stack),
                    \<lambda>(tb, typeMap, stack, b). sum_list (map weight stack)]"
    by auto
qed

definition newGraphQLSchemaM ::
  "tables \<Rightarrow> gql_object \<Rightarrow> gql_object option \<Rightarrow> gql_object option \<Rightarrow> gql_schema action" where
  "newGraphQLSchemaM tb q m s =
     bindM (typeMapM tb []
              (map VisitRoot (q # List.map_filter id [m, s]) @ map Visit introspectionTypes))
       (\<lambda>typeMap.
          returnM \<lparr>sc_query = Some q, sc_mutation = m, sc_subscription = s, sc_tables = tb\<rparr>)"

text \<open>\<^verbatim>\<open>build()\<close>: the schema or the error thrown, and the registry it leaves.\<close>

definition build :: "builder \<Rightarrow> (js_error + gql_schema) \<times> builder" where
  "build =
     bindM buildTablesM (\<lambda>tb.
     bindM get_types (\<lambda>ts.
     bindM (foldM (addOperationsM tb) ts ([], [], [])) (\<lambda>(queries, mutations, subscriptions).
       newGraphQLSchemaM tb (rootObject ''Query'' queries)
         (if length (dkeys mutations) \<noteq> 0
          then Some (rootObject ''Mutation'' mutations) else None)
         (if length (dkeys subscriptions) \<noteq> 0
          then Some (rootObject ''Subscriptions'' subscriptions) else None))))"

section \<open>Property annotations as data\<close>

text \<open>
  The six property annotations, with their arguments, and the decorator each one stands
  for.
\<close>

datatype annotation =
    AField type_ref "field_arguments option"
  | ADescription string
  | AResolve js_fn
  | AList type_ref "field_arguments option"
  | ANonNull
  | ANonNullItems

fun annotate :: "annotation \<Rightarrow> string \<Rightarrow> string \<Rightarrow> builder \<Rightarrow> builder" where
  "annotate (AField ty args) = field ty args"
| "annotate (ADescription text) = description text"
| "annotate (AResolve resolver) = resolve resolver"
| "annotate (AList ty args) = list ty args"
| "annotate ANonNull = nonNull"
| "annotate ANonNullItems = nonNullItems"

text \<open>
  The attributes of the field record that the body of each decorator assigns
  (\<^verbatim>\<open>args\<close> only when the call passes its second argument).
\<close>

datatype attribute = Type | Args | Resolver | Description | List | NonNull | NonNullItems

fun assigned :: "annotation \<Rightarrow> attribute list" where
  "assigned (AField ty args) = (if args = None then [Type] else [Type, Args])"
| "assigned (ADescription text) = [Description]"
| "assigned (AResolve resolver) = [Resolver]"
| "assigned (AList ty args) = (if args = None then [Type, List] else [Type, List, Args])"
| "assigned ANonNull = [NonNull]"
| "assigned ANonNullItems = [NonNullItems]"

text \<open>No attribute is assigned by two annotations of the list.\<close>

definition disjointAttributes :: "annotation list \<Rightarrow> bool" where
  "disjointAttributes xs = distinct (concat (map assigned xs))"

text \<open>
  The record \<^verbatim>\<open>getOrAddType\<close> returns, the record \<^verbatim>\<open>getOrAddField\<close> returns, and the
  assignment an annotation makes to the latter, given the kind of the former.
\<close>

definition typeOr :: "builder \<Rightarrow> string \<Rightarrow> type_info" where
  "typeOr b cn = (case dget (types b) cn of Some t \<Rightarrow> t | None \<Rightarrow> new_type cn)"

definition fieldOr :: "type_info \<Rightarrow> string \<Rightarrow> field_info" where
  "fieldOr t pn = (case dget (t_fields t) pn of Some f \<Rightarrow> f | None \<Rightarrow> new_field pn)"

fun assignment :: "kind option \<Rightarrow> annotation \<Rightarrow> field_info \<Rightarrow> field_info" where
  "assignment k (AField ty args) f =
     (case args of
        None \<Rightarrow> f\<lparr>f_type := Some ty\<rparr>
      | Some a \<Rightarrow> if k \<noteq> Some KInput then f\<lparr>f_type := Some ty, f_args := a\<rparr>
                  else f\<lparr>f_type := Some ty\<rparr>)"
| "assignment k (ADescription text) f = f\<lparr>f_description := Some text\<rparr>"
| "assignment k (AResolve resolver) f = f\<lparr>f_resolver := Some resolver\<rparr>"
| "assignment k (AList ty args) f =
     (case args of
        None \<Rightarrow> f\<lparr>f_type := Some ty, f_list := True\<rparr>
      | Some a \<Rightarrow> f\<lparr>f_type := Some ty, f_list := True, f_args := a\<rparr>)"
| "assignment k ANonNull f = f\<lparr>f_nonNull := True\<rparr>"
| "assignment k ANonNullItems f = f\<lparr>f_nonNullItems := True\<rparr>"

text \<open>The field record of a property in the registry.\<close>

definition lookupField :: "builder \<Rightarrow> string \<Rightarrow> string \<Rightarrow> field_info option" where
  "lookupField b cn pn =
     (case dget (types b) cn of None \<Rightarrow> None | Some t \<Rightarrow> dget (t_fields t) pn)"

section \<open>What the registry says of a name\<close>

text \<open>
  The kind and the scalar a name is registered with, the names of the registered enums,
  and the name an entry of an \<^verbatim>\<open>interfaces\<close> list stands for.
\<close>

definition kindOf :: "builder \<Rightarrow> string \<Rightarrow> kind option" where
  "kindOf b name = (case dget (types b) name of None \<Rightarrow> None | Some t \<Rightarrow> t_kind t)"

definition scalarOf :: "builder \<Rightarrow> string \<Rightarrow> gql_scalar option" where
  "scalarOf b name = (case dget (types b) name of None \<Rightarrow> None | Some t \<Rightarrow> t_scalar t)"

definition enumNames :: "builder \<Rightarrow> string list" where
  "enumNames b = map (\<lambda>(k, e). e_name e) (enums b)"

definition ifaceName :: "iface_ref \<Rightarrow> string" where
  "ifaceName r = (case r of IName s \<Rightarrow> s | IClass c \<Rightarrow> cname c | IGraphQL n \<Rightarrow> n)"

text \<open>The names of the values an enum type of a table exposes.\<close>

definition enumValueNames :: "gql_enum hash \<Rightarrow> string \<Rightarrow> string list option" where
  "enumValueNames tb name = map_option (\<lambda>g. dkeys (ge_values g)) (dget tb name)"

text \<open>
  A name that no enum and no record of the registry bears; the name an output-type
  reference gives, if it gives one (a string, or the name of the class a thunk returns);
  the name the return type of an operation gives; and the operations of the registry in
  the order in which \<^verbatim>\<open>build()\<close> converts them.
\<close>

definition unresolved :: "builder \<Rightarrow> string \<Rightarrow> bool" where
  "unresolved b name \<longleftrightarrow> name \<notin> set (enumNames b) \<and> \<not> hasType b name"

definition referredName :: "type_ref \<Rightarrow> string option" where
  "referredName ty = (case ty of TThunk c \<Rightarrow> Some (cname c) | TName name \<Rightarrow> Some name | _ \<Rightarrow> None)"

definition returnedName :: "return_ref \<Rightarrow> string option" where
  "returnedName r =
     (case r of
        RType ty \<Rightarrow> referredName ty
      | RFieldInfo fi \<Rightarrow> (case f_type fi of Some ty \<Rightarrow> referredName ty | None \<Rightarrow> None))"

definition operations :: "builder \<Rightarrow> (string \<times> resolver_info) list" where
  "operations b =
     concat (map (\<lambda>(name, info). t_queries info @ t_mutations info @ t_subscriptions info)
                 (types b))"

text \<open>
  The messages of the two errors that \<^verbatim>\<open>build()\<close> throws itself: a type name that is not
  resolved, and an entry of an \<^verbatim>\<open>interfaces\<close> list.
\<close>

definition schemaError :: "builder \<Rightarrow> string \<Rightarrow> bool" where
  "schemaError b msg \<longleftrightarrow>
     (\<exists>name. unresolved b name
        \<and> msg = ''Type '' @ CHR 0x27 # name @ CHR 0x27 # '' not defined'')
     \<or> (\<exists>r. msg = ''Interface '' @ CHR 0x27 # show_iface r @ CHR 0x27 # '' not defined'')"

section \<open>Registries with unique keys\<close>

text \<open>
  The keys of a JavaScript object are unique. On the association lists of the model this
  is an invariant of the registry: the names of the records are distinct, and so are the
  field names of each record. Every operation of the declaration API keeps it.
\<close>

definition wf_builder :: "builder \<Rightarrow> bool" where
  "wf_builder b \<longleftrightarrow>
     distinct (dkeys (types b)) \<and> (\<forall>(n, t) \<in> set (types b). distinct (dkeys (t_fields t)))"

section \<open>Example declarations\<close>

text \<open>The enum of the test \<^verbatim>\<open>enums\<close>, decorated twice as the test does.\<close>

definition exRole :: enum_obj where
  "exRole = EnumObj 1 [(''admin'', JStr ''admin''), (''moderator'', JStr ''moderator''),
                       (''user'', JStr ''user''), (''guest'', JStr ''guest'')]"

definition exRoleFirst :: enum_decoration_arguments where
  "exRoleFirst =
     \<lparr>ea_name = Some ''Role'', ea_description = Some ''An enum'',
      ea_values = Some
        [(''admin'', \<lparr>v_value = Some (JStr ''admin''), v_description = Some ''Administrator'',
                       v_deprecationReason = Some ''Use moderator''\<rparr>),
         (''moderator'', \<lparr>v_value = Some (JStr ''moderator''), v_description = None,
                           v_deprecationReason = None\<rparr>)]\<rparr>"

definition exRoleAgain :: enum_decoration_arguments where
  "exRoleAgain = \<lparr>ea_name = Some ''Role'', ea_description = None, ea_values = None\<rparr>"

definition exRoleBlank :: enum_decoration_arguments where
  "exRoleBlank = \<lparr>ea_name = Some ''  '', ea_description = None, ea_values = None\<rparr>"

definition exRoleUnnamed :: enum_decoration_arguments where
  "exRoleUnnamed = \<lparr>ea_name = None, ea_description = None, ea_values = None\<rparr>"

text \<open>A class and a subclass, and a registry with one operation of each kind.\<close>

definition exNode :: cls where
  "exNode = Cls 1 ''Node'' ''class Node { }'' None"

definition exUser :: cls where
  "exUser = Cls 2 ''User'' ''class User extends Node { }'' (Some exNode)"

definition exOperations :: builder where
  "exOperations =
     subscription \<lparr>ra_returnType = RType (TName ''User''), ra_description = None,
                    ra_args = None\<rparr> 30 ''Function'' ''userChanged'' 31
       (mutation \<lparr>ra_returnType = RType (TGraphQL (GGiven ''Boolean'')), ra_description = None,
                  ra_args = None\<rparr> ''Function'' ''logout'' 20
         (query \<lparr>ra_returnType = RType (TThunk exUser), ra_description = None,
                 ra_args = None\<rparr> ''Function'' ''currentUser'' 10
           (type None exUser new_builder)))"

definition exSchema :: gql_schema where
  "exSchema =
     \<lparr>sc_query = Some (rootObject ''Query''
        [(''currentUser'',
          \<lparr>gf_name = None, gf_type = GObjectType ''User'', gf_args = Some [],
           gf_resolve = Some 10, gf_subscribe = None, gf_deprecationReason = None,
           gf_description = None\<rparr>)]),
      sc_mutation = Some (rootObject ''Mutation''
        [(''logout'',
          \<lparr>gf_name = None, gf_type = GGiven ''Boolean'', gf_args = Some [],
           gf_resolve = Some 20, gf_subscribe = None, gf_deprecationReason = None,
           gf_description = None\<rparr>)]),
      sc_subscription = Some (rootObject ''Subscriptions''
        [(''userChanged'',
          \<lparr>gf_name = None, gf_type = GObjectType ''User'', gf_args = Some [],
           gf_resolve = Some 31, gf_subscribe = Some 30, gf_deprecationReason = None,
           gf_description = None\<rparr>)]),
      sc_tables = buildTables exOperations\<rparr>"

text \<open>The schema of the empty registry (the test \<^verbatim>\<open>schema generation\<close>).\<close>

definition exEmptySchema :: gql_schema where
  "exEmptySchema =
     \<lparr>sc_query = Some (rootObject ''Query'' []), sc_mutation = None, sc_subscription = None,
      sc_tables = buildTables new_builder\<rparr>"


text \<open>The three annotations of the property \<^verbatim>\<open>kind\<close> in the README.\<close>

definition exKindAnnotations :: "annotation list" where
  "exKindAnnotations =
     [ADescription ''Type of this Node.'', ANonNull, AField (TGraphQL (GGiven ''String'')) None]"

text \<open>
  The two registries of the test \<^verbatim>\<open>.build() throws on undefined types/interfaces\<close>: a type
  with a field of the undeclared type \<^verbatim>\<open>Unknown\<close>, and a type with the undeclared
  interface \<^verbatim>\<open>Unknown\<close>, each with a query that returns the type. The decorators of the
  members run before the decorator of the class. The third registry is the first one
  without the query, so that nothing refers to the type.
\<close>

definition exTest :: cls where
  "exTest = Cls 3 ''Test'' ''class Test { }'' None"

definition exUnknownField :: builder where
  "exUnknownField =
     type None exTest
       (query \<lparr>ra_returnType = RType (TThunk exTest), ra_description = None,
               ra_args = None\<rparr> ''Test'' ''myQuery'' 40
         (field (TName ''Unknown'') None ''Test'' ''test'' new_builder))"

definition exUnknownInterface :: builder where
  "exUnknownInterface =
     type (Some \<lparr>ta_description = None, ta_interfaces = Some [IName ''Unknown''],
                 ta_isTypeOf = None\<rparr>) exTest
       (query \<lparr>ra_returnType = RType (TThunk exTest), ra_description = None,
               ra_args = None\<rparr> ''Test'' ''myQuery'' 40
         (field (TGraphQL (GGiven ''Boolean'')) None ''Test'' ''test'' new_builder))"

definition exUnreached :: builder where
  "exUnreached =
     type None exTest (field (TName ''Unknown'') None ''Test'' ''test'' new_builder)"

text \<open>A query whose return type is a name that nothing bears.\<close>

definition exUnknownReturn :: builder where
  "exUnknownReturn =
     query \<lparr>ra_returnType = RType (TName ''Unknown''), ra_description = None,
            ra_args = None\<rparr> ''Function'' ''lost'' 60 new_builder"

text \<open>
  The enum of the test \<^verbatim>\<open>custom field resolver\<close>, decorated with a name only, and the
  registries the first decoration of each enum leaves.
\<close>

definition exCase :: enum_obj where
  "exCase = EnumObj 2 [(''Default'', JStr ''Default''), (''Lower'', JStr ''Lower''),
                       (''Upper'', JStr ''Upper'')]"

definition exCaseArgs :: enum_decoration_arguments where
  "exCaseArgs = \<lparr>ea_name = Some ''Case'', ea_description = None, ea_values = None\<rparr>"

definition exCaseDecorated :: builder where
  "exCaseDecorated = snd (decorateEnum exCase exCaseArgs new_builder)"

definition exRoleDecorated :: builder where
  "exRoleDecorated = snd (decorateEnum exRole exRoleFirst new_builder)"

text \<open>
  An interface and a type that extends it and declares \<^verbatim>\<open>id\<close> again, with what
  \<^verbatim>\<open>getFields\<close> returns for the type; and a type whose superclass has a field but no
  class annotation.
\<close>

definition exInherited :: builder where
  "exInherited =
     type None exUser
       (description ''The id of a user.'' ''User'' ''id''
         (field (TGraphQL (GGiven ''ID'')) None ''User'' ''id''
           (field (TGraphQL (GGiven ''String'')) None ''User'' ''name''
             (interface None exNode
               (nonNull ''Node'' ''id''
                 (field (TGraphQL (GGiven ''ID'')) None ''Node'' ''id''
                   (field (TGraphQL (GGiven ''String'')) None ''Node'' ''kind''
                      new_builder)))))))"

definition exBase :: cls where
  "exBase = Cls 4 ''Base'' ''class Base { }'' None"

definition exDerived :: cls where
  "exDerived = Cls 5 ''Derived'' ''class Derived extends Base { }'' (Some exBase)"

definition exUndecoratedBase :: builder where
  "exUndecoratedBase =
     type None exDerived
       (field (TGraphQL (GGiven ''String'')) None ''Derived'' ''b''
         (field (TGraphQL (GGiven ''String'')) None ''Base'' ''a'' new_builder))"

text \<open>
  The same registry with a query that returns \<^verbatim>\<open>'Base'\<close>, the name of the class that has
  an annotated property and no class annotation, and the schema \<^verbatim>\<open>build()\<close> returns for it.
\<close>

definition exBaseQuery :: builder where
  "exBaseQuery =
     query \<lparr>ra_returnType = RType (TName ''Base''), ra_description = None,
            ra_args = None\<rparr> ''Function'' ''base'' 50 exUndecoratedBase"

definition exBaseSchema :: gql_schema where
  "exBaseSchema =
     \<lparr>sc_query = Some (rootObject ''Query''
        [(''base'',
          \<lparr>gf_name = None, gf_type = GUndefined, gf_args = Some [],
           gf_resolve = Some 50, gf_subscribe = None, gf_deprecationReason = None,
           gf_description = None\<rparr>)]),
      sc_mutation = None, sc_subscription = None,
      sc_tables = buildTables exBaseQuery\<rparr>"



text \<open>The schema of the registry that the first decoration of \<^verbatim>\<open>Role\<close> leaves.\<close>

definition exRoleSchema :: gql_schema where
  "exRoleSchema =
     \<lparr>sc_query = Some (rootObject ''Query'' []), sc_mutation = None, sc_subscription = None,
      sc_tables = buildTables exRoleDecorated\<rparr>"

definition exUserFields :: "gql_field hash" where
  "exUserFields =
     [(''kind'',
       \<lparr>gf_name = Some ''kind'', gf_type = GGiven ''String'', gf_args = None,
        gf_resolve = None, gf_subscribe = None, gf_deprecationReason = None,
        gf_description = None\<rparr>),
      (''id'',
       \<lparr>gf_name = Some ''id'', gf_type = GGiven ''ID'', gf_args = None,
        gf_resolve = None, gf_subscribe = None, gf_deprecationReason = None,
        gf_description = Some ''The id of a user.''\<rparr>),
      (''name'',
       \<lparr>gf_name = Some ''name'', gf_type = GGiven ''String'', gf_args = None,
        gf_resolve = None, gf_subscribe = None, gf_deprecationReason = None,
        gf_description = None\<rparr>)]"

section \<open>Properties of dictionaries\<close>

lemma dget_dset: "dget (dset h k v) k' = (if k' = k then Some v else dget h k')"
  by (induction h) (auto simp: dget_def)

lemma dget_Cons: "dget ((k1, v1) # c) k = (if k = k1 then Some v1 else dget c k)"
  by (simp add: dget_def)

lemma dkeys_dset: "set (dkeys (dset h k v)) = insert k (set (dkeys h))"
  unfolding dkeys_def by (induction h k v rule: dset.induct) (simp_all add: insert_commute)

lemma distinct_dset: "distinct (dkeys h) \<Longrightarrow> distinct (dkeys (dset h k v))"
proof (induction h)
  case Nil
  then show ?case by (simp add: dkeys_def)
next
  case (Cons a h)
  obtain k' v' where a: "a = (k', v')" by (cases a)
  have "k' \<notin> set (dkeys h)" "distinct (dkeys h)"
    using Cons.prems by (simp_all add: a dkeys_def)
  then show ?case
    using Cons.IH dkeys_dset [of h k v] by (auto simp: a dkeys_def)
qed

lemma dset_not_Nil: "dset h k v \<noteq> []"
  by (cases h) (auto split: if_splits)

lemma dset_twice: "dset (dset h k v) k w = dset h k w"
  by (induction h) auto

lemma dset_append_fresh: "k \<notin> set (dkeys h) \<Longrightarrow> dset h k v = h @ [(k, v)]"
  by (induction h) (auto simp: dkeys_def)

lemma set_dset_subset: "set (dset h k v) \<subseteq> insert (k, v) (set h)"
  by (induction h k v rule: dset.induct) auto

lemma dhas_iff: "dhas h k \<longleftrightarrow> k \<in> set (dkeys h)"
  by (auto simp: dhas_def dget_def dkeys_def map_of_eq_None_iff)

lemma dhas_Nil: "\<not> dhas [] k"
  by (simp add: dhas_def dget_def)

lemma dkeys_fold_dset:
  "set (dkeys (fold (\<lambda>x acc. dset acc (kf x) (vf x)) xs acc)) = set (dkeys acc) \<union> kf ` set xs"
  by (induction xs arbitrary: acc) (auto simp: dkeys_dset)

lemma dkeys_spread: "set (dkeys (spread p c)) = set (dkeys p) \<union> set (dkeys c)"
proof -
  have "set (dkeys (fold (\<lambda>x acc. dset acc (fst x) (snd x)) c p)) = set (dkeys p) \<union> fst ` set c"
    by (rule dkeys_fold_dset)
  then show ?thesis by (simp add: spread_def case_prod_unfold dkeys_def)
qed

lemma dkeys_foldl_spread:
  "set (dkeys (foldl spread acc xs)) = set (dkeys acc) \<union> (\<Union>x \<in> set xs. set (dkeys x))"
  by (induction xs arbitrary: acc) (auto simp: dkeys_spread)

lemma dkeys_singletons:
  "(\<Union>x \<in> set (map (\<lambda>(n, v). [(n, g n v)]) h). set (dkeys x)) = set (dkeys h)"
  by (induction h) (auto simp: dkeys_def)

lemma dkeys_reduce_singletons:
  "set (dkeys (reduce_spread (map (\<lambda>(n, v). [(n, g n v)]) h))) = set (dkeys h)"
  unfolding reduce_spread_def dkeys_foldl_spread dkeys_singletons by (simp add: dkeys_def)

lemma distinct_spread: "distinct (dkeys p) \<Longrightarrow> distinct (dkeys (spread p c))"
  unfolding spread_def
  by (induction c arbitrary: p) (auto simp: distinct_dset)

lemma distinct_foldl_spread: "distinct (dkeys acc) \<Longrightarrow> distinct (dkeys (foldl spread acc hs))"
  by (induction hs arbitrary: acc) (simp_all add: distinct_spread)

lemma dget_spread:
  "distinct (dkeys c) \<Longrightarrow>
     dget (spread p c) k = (case dget c k of Some v \<Rightarrow> Some v | None \<Rightarrow> dget p k)"
proof (induction c arbitrary: p)
  case Nil
  then show ?case by (simp add: spread_def dget_def)
next
  case (Cons a c)
  obtain k1 v1 where a: "a = (k1, v1)" by (cases a)
  from Cons.prems have fresh: "k1 \<notin> set (dkeys c)" and d: "distinct (dkeys c)"
    by (simp_all add: a dkeys_def)
  have s: "spread p (a # c) = spread (dset p k1 v1) c"
    by (simp add: spread_def a)
  from fresh have n: "dget c k1 = None"
    using dhas_iff [of c k1] by (simp add: dhas_def)
  show ?case
    unfolding s Cons.IH [OF d]
    using n by (auto simp: a dget_dset dget_Cons split: option.splits)
qed

lemma foldl_spread_singletons:
  "distinct (dkeys (acc @ xs)) \<Longrightarrow> foldl spread acc (map (\<lambda>x. [x]) xs) = acc @ xs"
proof (induction xs arbitrary: acc)
  case Nil
  then show ?case by simp
next
  case (Cons x xs)
  obtain k v where x: "x = (k, v)" by (cases x)
  from Cons.prems have "k \<notin> set (dkeys acc)"
    by (auto simp: x dkeys_def)
  then have s: "spread acc [x] = acc @ [x]"
    by (simp add: spread_def x dset_append_fresh)
  from Cons.prems have "distinct (dkeys ((acc @ [x]) @ xs))" by simp
  from Cons.IH [OF this] show ?case by (simp add: s)
qed

lemma reduce_spread_singletons:
  "distinct (dkeys xs) \<Longrightarrow> reduce_spread (map (\<lambda>x. [x]) xs) = xs"
  using foldl_spread_singletons [of "[]" xs] by (simp add: reduce_spread_def)

lemma list_all2_keys:
  "list_all2 (\<lambda>x y. fst y = fst x \<and> P x y) m fs \<Longrightarrow> dkeys fs = dkeys m"
  by (induction m fs rule: list_all2_induct) (simp_all add: dkeys_def)

lemma list_all2_dget:
  assumes "list_all2 (\<lambda>x y. fst y = fst x \<and> P x y) m fs" and "distinct (dkeys m)"
    and "dget fs k = Some v"
  shows "\<exists>u. dget m k = Some u \<and> P (k, u) (k, v)"
  using assms
proof (induction m fs rule: list_all2_induct)
  case Nil
  then show ?case by (simp add: dget_def)
next
  case (Cons x m y fs)
  obtain k1 u1 where x: "x = (k1, u1)" by (cases x)
  obtain k2 v2 where y: "y = (k2, v2)" by (cases y)
  from Cons.hyps(1) have k: "k2 = k1" by (simp add: x y)
  from Cons.hyps(1) have P: "P (k1, u1) (k1, v2)" by (simp add: x y k)
  show ?case
  proof (cases "k = k1")
    case True
    with Cons.prems(2) have "v = v2" by (simp add: y k dget_def)
    with P True show ?thesis by (simp add: x dget_def)
  next
    case False
    with Cons.prems have "distinct (dkeys m)" "dget fs k = Some v"
      by (simp_all add: x y k dkeys_def dget_def)
    from Cons.IH [OF this] False show ?thesis by (simp add: x dget_def)
  qed
qed

lemma mapE_Inl: "mapE f xs = Inl e \<Longrightarrow> \<exists>x \<in> set xs. f x = Inl e"
  by (induction xs arbitrary: e) (auto split: sum.splits)

lemma mapE_fails: "x \<in> set xs \<Longrightarrow> f x = Inl e \<Longrightarrow> \<exists>e'. mapE f xs = Inl e'"
  by (induction xs) (auto split: sum.splits)

section \<open>Properties of the registry operations\<close>

lemma getOrAddType_eq:
  "getOrAddType b cn = (typeOr b cn, b\<lparr>types := dset (types b) cn (typeOr b cn)\<rparr>)"
  by (simp add: getOrAddType_def typeOr_def Let_def)

lemma assignType_eq: "assignType b cn upd = b\<lparr>types := dset (types b) cn (upd (typeOr b cn))\<rparr>"
  by (simp add: assignType_def getOrAddType_eq dset_twice)

lemma assignField_eq:
  "assignField b cn pn upd =
     b\<lparr>types := dset (types b) cn
          ((typeOr b cn)\<lparr>t_fields := dset (t_fields (typeOr b cn)) pn
                                         (upd (fieldOr (typeOr b cn) pn))\<rparr>)\<rparr>"
  by (simp add: assignField_def getOrAddField_def getOrAddType_eq fieldOr_def dget_dset dset_twice
        Let_def)

lemma typeOr_assignField:
  "typeOr (assignField b cn pn upd) cn =
     (typeOr b cn)\<lparr>t_fields := dset (t_fields (typeOr b cn)) pn (upd (fieldOr (typeOr b cn) pn))\<rparr>"
  by (simp add: assignField_eq typeOr_def dget_dset)

lemma assignField_types:
  "types (assignField b cn pn upd) =
     dset (types b) cn
       ((typeOr b cn)\<lparr>t_fields := dset (t_fields (typeOr b cn)) pn
                                      (upd (fieldOr (typeOr b cn) pn))\<rparr>)"
  by (simp add: assignField_eq)

lemma assignField_enums: "enums (assignField b cn pn upd) = enums b"
  by (simp add: assignField_eq)

lemma fieldOr_dset: "fieldOr (t\<lparr>t_fields := dset h pn v\<rparr>) pn = v"
  by (simp add: fieldOr_def dget_dset)

lemma assignField_twice:
  "assignField (assignField b cn pn u1) cn pn u2 = assignField b cn pn (\<lambda>f. u2 (u1 f))"
proof (rule builder.equality)
  show "types (assignField (assignField b cn pn u1) cn pn u2) =
          types (assignField b cn pn (\<lambda>f. u2 (u1 f)))"
    by (simp add: assignField_types [of "assignField b cn pn u1"] typeOr_assignField
          fieldOr_dset)
       (simp add: assignField_types dset_twice)
  show "enums (assignField (assignField b cn pn u1) cn pn u2) =
          enums (assignField b cn pn (\<lambda>f. u2 (u1 f)))"
    by (simp add: assignField_enums)
  show "builder.more (assignField (assignField b cn pn u1) cn pn u2) =
          builder.more (assignField b cn pn (\<lambda>f. u2 (u1 f)))"
    by simp
qed

lemma typeOr_getOrAddType: "typeOr (snd (getOrAddType b cn)) cn = typeOr b cn"
  by (simp add: getOrAddType_eq typeOr_def dget_dset)

lemma assignField_getOrAddType:
  "assignField (snd (getOrAddType b cn)) cn pn upd = assignField b cn pn upd"
  by (simp add: assignField_eq typeOr_getOrAddType) (simp add: getOrAddType_eq dset_twice)

lemma assignField_cong:
  "(\<And>f. u1 f = u2 f) \<Longrightarrow> assignField b cn pn u1 = assignField b cn pn u2"
  by (simp add: assignField_eq)

lemma kind_assignField: "t_kind (typeOr (assignField b cn pn upd) cn) = t_kind (typeOr b cn)"
  by (simp add: typeOr_assignField)

lemma annotate_eq:
  "annotate a cn pn b = assignField b cn pn (assignment (t_kind (typeOr b cn)) a)"
proof (cases a)
  case (AField ty args)
  have g: "assignField (b\<lparr>types := dset (types b) cn (typeOr b cn)\<rparr>) cn pn upd =
             assignField b cn pn upd" for upd
    using assignField_getOrAddType [of b cn pn upd] by (simp add: getOrAddType_eq)
  have "field ty args cn pn b =
          assignField b cn pn (assignment (t_kind (typeOr b cn)) (AField ty args))"
  proof (cases args)
    case None
    have "field ty args cn pn b = assignField b cn pn (\<lambda>f. f\<lparr>f_type := Some ty\<rparr>)"
      by (simp add: field_def getOrAddType_eq None g)
    also have "\<dots> = assignField b cn pn (assignment (t_kind (typeOr b cn)) (AField ty args))"
      by (rule assignField_cong) (simp add: None)
    finally show ?thesis .
  next
    case (Some a)
    have "field ty args cn pn b =
            assignField b cn pn
              (\<lambda>f. if t_kind (typeOr b cn) \<noteq> Some KInput
                    then f\<lparr>f_type := Some ty, f_args := a\<rparr> else f\<lparr>f_type := Some ty\<rparr>)"
      by (simp add: field_def getOrAddType_eq Some g assignField_twice Let_def)
    also have "\<dots> = assignField b cn pn (assignment (t_kind (typeOr b cn)) (AField ty args))"
      by (rule assignField_cong) (simp add: Some)
    finally show ?thesis .
  qed
  then show ?thesis by (simp add: AField)
next
  case (AList ty args)
  have "list ty args cn pn b =
          assignField b cn pn (assignment (t_kind (typeOr b cn)) (AList ty args))"
  proof (cases args)
    case None
    have "list ty args cn pn b = assignField b cn pn (\<lambda>f. f\<lparr>f_type := Some ty, f_list := True\<rparr>)"
      by (simp add: list_def None assignField_twice Let_def)
    also have "\<dots> = assignField b cn pn (assignment (t_kind (typeOr b cn)) (AList ty args))"
      by (rule assignField_cong) (simp add: None)
    finally show ?thesis .
  next
    case (Some a)
    have "list ty args cn pn b =
            assignField b cn pn (\<lambda>f. f\<lparr>f_type := Some ty, f_list := True, f_args := a\<rparr>)"
      by (simp add: list_def Some assignField_twice Let_def)
    also have "\<dots> = assignField b cn pn (assignment (t_kind (typeOr b cn)) (AList ty args))"
      by (rule assignField_cong) (simp add: Some)
    finally show ?thesis .
  qed
  then show ?thesis by (simp add: AList)
next
  case (ADescription d)
  show ?thesis unfolding ADescription annotate.simps description_def
    by (rule assignField_cong) simp
next
  case (AResolve resolver)
  show ?thesis unfolding AResolve annotate.simps resolve_def
    by (rule assignField_cong) simp
next
  case ANonNull
  show ?thesis unfolding ANonNull annotate.simps nonNull_def
    by (rule assignField_cong) simp
next
  case ANonNullItems
  show ?thesis unfolding ANonNullItems annotate.simps nonNullItems_def
    by (rule assignField_cong) simp
qed

text \<open>The declaration API keeps the keys of the registry unique.\<close>

lemma wf_dset:
  assumes "wf_builder b" and "distinct (dkeys (t_fields T))"
  shows "wf_builder (b\<lparr>types := dset (types b) cn T\<rparr>)"
proof -
  have "distinct (dkeys (t_fields t))" if "(n, t) \<in> set (dset (types b) cn T)" for n t
  proof -
    from that set_dset_subset [of "types b" cn T] have "(n, t) = (cn, T) \<or> (n, t) \<in> set (types b)"
      by auto
    with assms show ?thesis by (auto simp: wf_builder_def)
  qed
  with assms(1) show ?thesis by (auto simp: wf_builder_def distinct_dset)
qed

lemma wf_typeOr: "wf_builder b \<Longrightarrow> distinct (dkeys (t_fields (typeOr b cn)))"
proof (cases "dget (types b) cn")
  case None
  then show ?thesis by (simp add: typeOr_def new_type_def dkeys_def)
next
  case (Some t)
  assume w: "wf_builder b"
  from Some have "(cn, t) \<in> set (types b)" by (simp add: dget_def map_of_SomeD)
  with w show ?thesis by (auto simp: typeOr_def Some wf_builder_def)
qed

lemma wf_assignType:
  assumes "wf_builder b" and "\<And>t. t_fields (upd t) = t_fields t"
  shows "wf_builder (assignType b cn upd)"
  unfolding assignType_eq using wf_dset [OF assms(1)] wf_typeOr [OF assms(1)] assms(2) by simp

lemma wf_assignField: "wf_builder b \<Longrightarrow> wf_builder (assignField b cn pn upd)"
  unfolding assignField_eq using wf_typeOr [of b cn] by (intro wf_dset) (simp_all add: distinct_dset)

lemma wf_builder_preserved:
  "wf_builder new_builder"
  "wf_builder b \<Longrightarrow> wf_builder (annotate a cn pn b)"
  "wf_builder b \<Longrightarrow> wf_builder (interface iargs c b)"
  "wf_builder b \<Longrightarrow> wf_builder (type targs c b)"
  "wf_builder b \<Longrightarrow> wf_builder (input dargs c b)"
  "wf_builder b \<Longrightarrow> wf_builder (scalar sargs c b)"
  "wf_builder b \<Longrightarrow> wf_builder (query rargs cn mn fn b)"
  "wf_builder b \<Longrightarrow> wf_builder (mutation rargs cn mn fn b)"
  "wf_builder b \<Longrightarrow> wf_builder (subscription rargs sub cn mn fn b)"
  "wf_builder b \<Longrightarrow> wf_builder (snd (decorateEnum object eargs b))"
proof -
  show "wf_builder new_builder" by (simp add: wf_builder_def new_builder_def dkeys_def)
  show "wf_builder b \<Longrightarrow> wf_builder (annotate a cn pn b)"
    by (simp add: annotate_eq wf_assignField)
  show "wf_builder b \<Longrightarrow> wf_builder (interface iargs c b)"
    unfolding interface_def by (rule wf_assignType) (simp_all add: Let_def split: option.splits)
  show "wf_builder b \<Longrightarrow> wf_builder (type targs c b)"
    unfolding type_def by (rule wf_assignType) (simp_all add: Let_def split: option.splits)
  show "wf_builder b \<Longrightarrow> wf_builder (input dargs c b)"
    unfolding input_def by (rule wf_assignType) (simp_all add: Let_def split: option.splits)
  show "wf_builder b \<Longrightarrow> wf_builder (scalar sargs c b)"
    unfolding scalar_def by (rule wf_assignType) simp_all
  show "wf_builder b \<Longrightarrow> wf_builder (query rargs cn mn fn b)"
    unfolding query_def by (rule wf_assignType) simp_all
  show "wf_builder b \<Longrightarrow> wf_builder (mutation rargs cn mn fn b)"
    unfolding mutation_def by (rule wf_assignType) simp_all
  show "wf_builder b \<Longrightarrow> wf_builder (subscription rargs sub cn mn fn b)"
    unfolding subscription_def by (rule wf_assignType) simp_all
  show "wf_builder b \<Longrightarrow> wf_builder (snd (decorateEnum object eargs b))"
    by (auto simp: decorateEnum_def getOrAddEnum_def wf_builder_def Let_def
             split: option.splits sum.splits prod.splits if_splits)
qed

section \<open>Properties of the tables\<close>

lemma tb_enums_addType: "tb_enums (addType x tb) = tb_enums tb"
  by (cases x) (simp add: addType_def split: option.splits kind.splits)

lemma tb_enums_fold_addType: "tb_enums (fold addType ts tb) = tb_enums tb"
  by (induction ts arbitrary: tb) (simp_all add: tb_enums_addType)

lemma tb_enums_buildTables: "tb_enums (buildTables b) = buildEnums b"
  by (simp add: buildTables_def tb_enums_fold_addType)

lemma dkeys_buildEnums: "set (dkeys (buildEnums b)) = set (enumNames b)"
proof -
  have "buildEnums b = fold (\<lambda>x acc. dset acc (e_name (snd x)) (makeEnumType (snd x))) (enums b) []"
    by (simp add: buildEnums_def case_prod_unfold)
  then have "set (dkeys (buildEnums b)) =
      set (dkeys ([] :: gql_enum hash)) \<union> (\<lambda>x. e_name (snd x)) ` set (enums b)"
    by (simp only: dkeys_fold_dset)
  then show ?thesis
    by (simp add: enumNames_def case_prod_unfold dkeys_def)
qed

lemma buildEnums_last:
  "enums b = es @ [(object, info)] \<Longrightarrow> dget (buildEnums b) (e_name info) = Some (makeEnumType info)"
  by (simp add: buildEnums_def dget_dset)

lemma dget_fold_addType_other:
  "name \<notin> set (dkeys ts) \<Longrightarrow>
     dget (tb_interfaces (fold addType ts tb)) name = dget (tb_interfaces tb) name \<and>
     dget (tb_objects (fold addType ts tb)) name = dget (tb_objects tb) name \<and>
     dget (tb_inputs (fold addType ts tb)) name = dget (tb_inputs tb) name \<and>
     dget (tb_scalars (fold addType ts tb)) name = dget (tb_scalars tb) name"
proof (induction ts arbitrary: tb)
  case Nil
  then show ?case by simp
next
  case (Cons a ts)
  obtain n info where a: "a = (n, info)" by (cases a)
  from Cons.prems have n: "n \<noteq> name" and rest: "name \<notin> set (dkeys ts)"
    by (auto simp: a dkeys_def)
  have "dget (tb_interfaces (addType a tb)) name = dget (tb_interfaces tb) name"
       "dget (tb_objects (addType a tb)) name = dget (tb_objects tb) name"
       "dget (tb_inputs (addType a tb)) name = dget (tb_inputs tb) name"
       "dget (tb_scalars (addType a tb)) name = dget (tb_scalars tb) name"
    using n by (simp_all add: a addType_def dget_dset split: option.splits kind.splits)
  with Cons.IH [OF rest, of "addType a tb"] show ?case by simp
qed

lemma dhas_fold_addType:
  assumes "distinct (dkeys ts)" and "dget ts name = Some info"
    and "\<not> dhas (tb_interfaces tb) name" "\<not> dhas (tb_objects tb) name"
        "\<not> dhas (tb_inputs tb) name" "\<not> dhas (tb_scalars tb) name"
  shows "(dhas (tb_interfaces (fold addType ts tb)) name \<longleftrightarrow> t_kind info = Some KInterface) \<and>
         (dhas (tb_objects (fold addType ts tb)) name \<longleftrightarrow> t_kind info = Some KType) \<and>
         (dhas (tb_inputs (fold addType ts tb)) name \<longleftrightarrow> t_kind info = Some KInput) \<and>
         (truthy (tb_scalars (fold addType ts tb)) name \<longleftrightarrow>
            t_kind info = Some KScalar \<and> t_scalar info \<noteq> None)"
  using assms
proof (induction ts arbitrary: tb)
  case Nil
  then show ?case by (simp add: dget_def)
next
  case (Cons a ts)
  obtain n i where a: "a = (n, i)" by (cases a)
  from Cons.prems(1) have fresh: "n \<notin> set (dkeys ts)" and d: "distinct (dkeys ts)"
    by (simp_all add: a dkeys_def)
  show ?case
  proof (cases "n = name")
    case True
    with Cons.prems(2) have i: "i = info" by (simp add: a dget_def)
    from fresh True have "name \<notin> set (dkeys ts)" by simp
    from dget_fold_addType_other [OF this, of "addType a tb"]
    show ?thesis
      using Cons.prems(3-6)
      by (simp add: dhas_def truthy_def)
         (simp add: a True i addType_def dget_dset split: option.splits kind.splits)
  next
    case False
    with Cons.prems(2) have g: "dget ts name = Some info" by (simp add: a dget_def)
    have "\<not> dhas (tb_interfaces (addType a tb)) name" "\<not> dhas (tb_objects (addType a tb)) name"
         "\<not> dhas (tb_inputs (addType a tb)) name" "\<not> dhas (tb_scalars (addType a tb)) name"
      using Cons.prems(3-6) False
      by (simp_all add: a addType_def dhas_def dget_dset split: option.splits kind.splits)
    from Cons.IH [OF d g this] show ?thesis by simp
  qed
qed

lemma tables_registered:
  assumes "distinct (dkeys (types b))" and "dget (types b) name = Some info"
  shows "(dhas (tb_interfaces (buildTables b)) name \<longleftrightarrow> t_kind info = Some KInterface) \<and>
         (dhas (tb_objects (buildTables b)) name \<longleftrightarrow> t_kind info = Some KType) \<and>
         (dhas (tb_inputs (buildTables b)) name \<longleftrightarrow> t_kind info = Some KInput) \<and>
         (truthy (tb_scalars (buildTables b)) name \<longleftrightarrow>
            t_kind info = Some KScalar \<and> t_scalar info \<noteq> None)"
  unfolding buildTables_def
  by (rule dhas_fold_addType [OF assms]) (simp_all add: dhas_Nil)

lemma tables_unregistered:
  assumes "dget (types b) name = None"
  shows "\<not> dhas (tb_interfaces (buildTables b)) name \<and> \<not> dhas (tb_objects (buildTables b)) name \<and>
         \<not> dhas (tb_inputs (buildTables b)) name \<and> \<not> truthy (tb_scalars (buildTables b)) name"
proof -
  from assms have "name \<notin> set (dkeys (types b))"
    using dhas_iff [of "types b" name] by (simp add: dhas_def)
  from dget_fold_addType_other [OF this] show ?thesis
    by (simp add: buildTables_def dhas_def truthy_def dget_def)
qed

section \<open>Properties of the lookups\<close>

lemma entry_eq:
  "entry mk h name =
     (if dhas h name then Some (mk name)
      else if name \<in> set objectPrototypeNames then Some (GForeign (PrototypeMember name))
      else None)"
  by (simp add: entry_def property_def dhas_def split: option.splits)

lemma scalarEntry_eq:
  "scalarEntry h name =
     (if truthy h name then Some (GScalarType name)
      else if dhas h name then None
      else if name \<in> set objectPrototypeNames then Some (GForeign (PrototypeMember name))
      else None)"
  by (simp add: scalarEntry_def property_def dhas_def truthy_def split: option.splits)

lemma hasType_eq: "hasType b name \<longleftrightarrow> dhas (types b) name \<or> name \<in> set objectPrototypeNames"
  by (simp add: hasType_def property_def dhas_def split: option.splits)

section \<open>The actions return what the functions return\<close>

lemma bindM_returnM: "bindM (returnM x) f = f x"
  by (simp add: bindM_def returnM_def)

lemma bindM_throwM: "bindM (throwM e) f = throwM e"
  by (simp add: bindM_def throwM_def)

lemma bindM_apply:
  "bindM m f b = (case m b of (Inl e, b') \<Rightarrow> (Inl e, b') | (Inr x, b') \<Rightarrow> f x b')"
  by (simp add: bindM_def)

lemma mapM_eq:
  assumes "\<And>x b. f x b = (g b x, b)"
  shows "mapM f xs b = (mapE (g b) xs, b)"
  by (induction xs) (simp_all add: returnM_def bindM_def assms split: sum.splits)

lemma mapM_findByClassM:
  "mapM findByClassM cs b = (Inr (map (findByClass b) cs), b)"
  by (induction cs) (simp_all add: returnM_def bindM_def findByClassM_def)

lemma foldM_eq:
  assumes "\<And>x s b. f x s b = (g b x s, b)"
  shows "foldM f xs s b = (foldE (g b) xs s, b)"
  by (induction xs arbitrary: s) (simp_all add: returnM_def bindM_def assms split: sum.splits)

lemma buildEnumsM_eq: "buildEnumsM b = (Inr (buildEnums b), b)"
  by (simp add: buildEnumsM_def buildEnums_def bindM_def get_enums_def returnM_def)

lemma buildTablesM_eq: "buildTablesM b = (Inr (buildTables b), b)"
  by (simp add: buildTablesM_def buildTables_def bindM_def buildEnumsM_eq get_types_def returnM_def)

lemma outputByNameM_eq: "outputByNameM tb name b = (outputByName b tb name, b)"
  by (simp add: outputByNameM_def outputByName_def bindM_def hasTypeM_def returnM_def throwM_def
           split: option.splits)

lemma enumNameM_eq:
  "enumNameM e b =
     (case dget (enums b) e of
        Some info \<Rightarrow> (Inr (e_name info), b)
      | None \<Rightarrow> (Inl (TypeError (''Cannot read property '' @ quoted ''name'' @ '' of undefined'')), b))"
  by (simp add: enumNameM_def bindM_def get_enums_def returnM_def throwM_def split: option.splits)

lemma convertOutputTypeM_eq: "convertOutputTypeM tb ty b = (convertOutputType b tb ty, b)"
  by (cases ty)
     (simp_all add: convertOutputTypeM_def convertOutputType_def outputByNameM_eq bindM_def
        hasEnumM_def hasEnum_def dhas_def enumNameM_eq returnM_def split: option.splits)

lemma convertInputTypeM_eq: "convertInputTypeM tb ty b = (Inr (convertInputType b tb ty), b)"
  by (cases ty)
     (simp_all add: convertInputTypeM_def convertInputType_def bindM_def
        hasEnumM_def hasEnum_def dhas_def enumNameM_eq returnM_def split: option.splits)

lemma runConverterM_eq: "runConverterM tb conv ty b = (runConverter b tb conv ty, b)"
  by (cases conv)
     (simp_all add: runConverterM_def runConverter_def convertOutputTypeM_eq convertInputTypeM_eq)

lemma convertFieldInfoToTypeM_eq:
  assumes "\<And>t b. converterM t b = (converter b t, b)"
  shows "convertFieldInfoToTypeM fieldInfo converterM b =
           (convertFieldInfoToType fieldInfo (converter b), b)"
  by (simp add: convertFieldInfoToTypeM_def convertFieldInfoToType_def bindM_def liftE_def
        returnM_def assms split: return_ref.splits option.splits sum.splits)

lemma convertArgumentsM_eq: "convertArgumentsM tb args b = (Inr (convertArguments b tb args), b)"
proof -
  have m: "mapM (\<lambda>(name, arg).
                bindM (convertInputTypeM tb (a_type arg)) (\<lambda>ty.
                  returnM [(name, \<lparr>ga_type = ty, ga_defaultValue = a_defaultValue arg,
                                   ga_description = a_description arg\<rparr>)])) xs b =
        (Inr (map (\<lambda>(name, arg).
                     [(name, \<lparr>ga_type = convertInputType b tb (a_type arg),
                              ga_defaultValue = a_defaultValue arg,
                              ga_description = a_description arg\<rparr>)]) xs), b)" for xs
    by (induction xs)
       (simp_all add: returnM_def bindM_def convertInputTypeM_eq split: prod.splits)
  show ?thesis
    unfolding convertArgumentsM_def convertArguments_def
    by (simp only: bindM_apply m) (simp add: returnM_def)
qed

lemma makeFieldM_eq: "makeFieldM tb info conv x b = (makeField b tb info conv x, b)"
  by (cases x)
     (simp add: makeFieldM_def makeField_def bindM_def returnM_def convertArgumentsM_eq
        convertFieldInfoToTypeM_eq [of "runConverterM tb conv" "\<lambda>b. runConverter b tb conv",
                                     OF runConverterM_eq]
        split: sum.splits option.splits)

lemma map_filter_id: "List.map_filter id (map f xs) = List.map_filter f xs"
  by (induction xs) (simp_all add: List.map_filter_simps split: option.splits)

lemma getFieldsM_eq: "getFieldsM tb info conv b = (getFields b tb info conv, b)"
proof (cases "t_target info")
  case None
  then show ?thesis by (simp add: getFieldsM_def getFields_def throwM_def)
next
  case (Some target)
  have "mapM (makeFieldM tb info conv) fs b = (mapE (makeField b tb info conv) fs, b)" for fs
    by (rule mapM_eq) (rule makeFieldM_eq)
  then show ?thesis
    by (simp add: getFieldsM_def getFields_def Some bindM_def mapM_findByClassM map_filter_id
          mergedFields_def parentsOf_def returnM_def split: sum.splits)
qed

lemma addOperationM_eq: "addOperationM tb x acc b = (addOperation b tb x acc, b)"
  by (cases x)
     (simp add: addOperationM_def addOperation_def bindM_def returnM_def convertArgumentsM_eq
        convertFieldInfoToTypeM_eq [of "convertOutputTypeM tb" "\<lambda>b. convertOutputType b tb",
                                     OF convertOutputTypeM_eq]
        split: sum.splits option.splits)

lemma addOperationsM_eq: "addOperationsM tb x acc b = (addOperations b tb x acc, b)"
proof -
  have f: "foldM (addOperationM tb) ops s b = (foldE (addOperation b tb) ops s, b)" for ops s
    by (rule foldM_eq) (rule addOperationM_eq)
  show ?thesis
    by (cases x; cases acc)
       (simp add: addOperationsM_def addOperations_def bindM_def returnM_def f split: sum.splits)
qed

lemma runFieldsM_eq:
  "runFieldsM tb thunk b =
     (case thunk of GetFields info conv \<Rightarrow> getFields b tb info conv | FieldMap fs \<Rightarrow> Inr fs, b)"
  by (cases thunk) (simp_all add: runFieldsM_def getFieldsM_eq returnM_def)

lemma stepM_frame: "snd (stepM tb typeMap it b) = b"
  by (cases it)
     (auto simp: stepM_def bindM_def liftE_def returnM_def throwM_def runFieldsM_eq
           split: sum.splits option.splits gql_type.splits prod.splits if_splits)

lemma typeMapM_frame: "snd (typeMapM tb typeMap stack b) = b"
proof (induction tb typeMap stack b rule: typeMapM.induct)
  case (1 tb typeMap b)
  then show ?case by simp
next
  case (2 tb typeMap it rest b)
  obtain r b' where s: "stepM tb typeMap it b = (r, b')" by (cases "stepM tb typeMap it b")
  with stepM_frame [of tb typeMap it b] have b': "b' = b" by simp
  show ?case
  proof (cases r)
    case (Inl e)
    then show ?thesis by (simp add: s b')
  next
    case (Inr p)
    obtain tm items where p: "p = (tm, items)" by (cases p)
    from s Inr p have s': "(Inr (tm, items), b') = stepM tb typeMap it b" by simp
    have "snd (typeMapM tb tm (items @ rest) b') = b'" by (rule 2 [OF s' refl refl])
    then show ?thesis by (simp add: s'[symmetric] b')
  qed
qed

lemma newGraphQLSchemaM_eq:
  "newGraphQLSchemaM tb q m s b =
     (case fst (typeMapM tb []
                  (map VisitRoot (q # List.map_filter id [m, s]) @ map Visit introspectionTypes) b) of
        Inl e \<Rightarrow> Inl e
      | Inr typeMap \<Rightarrow>
          Inr \<lparr>sc_query = Some q, sc_mutation = m, sc_subscription = s, sc_tables = tb\<rparr>,
      b)"
proof -
  let ?run = "typeMapM tb []
                (map VisitRoot (q # List.map_filter id [m, s]) @ map Visit introspectionTypes) b"
  obtain r b' where r: "?run = (r, b')" by (cases ?run)
  with typeMapM_frame [of tb "[]" _ b] have "b' = b" by (metis snd_conv)
  with r show ?thesis
    by (simp add: newGraphQLSchemaM_def bindM_apply returnM_def split: sum.splits)
qed

lemma build_eq:
  "build b =
     (case foldE (addOperations b (buildTables b)) (types b) ([], [], []) of
        Inl e \<Rightarrow> (Inl e, b)
      | Inr (queries, mutations, subscriptions) \<Rightarrow>
          newGraphQLSchemaM (buildTables b) (rootObject ''Query'' queries)
            (if length (dkeys mutations) \<noteq> 0
             then Some (rootObject ''Mutation'' mutations) else None)
            (if length (dkeys subscriptions) \<noteq> 0
             then Some (rootObject ''Subscriptions'' subscriptions) else None) b)"
proof -
  have f: "foldM (addOperationsM tb) ts s b = (foldE (addOperations b tb) ts s, b)" for tb ts s
    by (rule foldM_eq) (rule addOperationsM_eq)
  show ?thesis
    by (simp add: build_def bindM_apply buildTablesM_eq get_types_def f split: sum.splits)
qed


lemma build_Inr:
  assumes "build b = (Inr s, b')"
  obtains q m u where
    "foldE (addOperations b (buildTables b)) (types b) ([], [], []) = Inr (q, m, u)"
    "s = \<lparr>sc_query = Some (rootObject ''Query'' q),
          sc_mutation = (if length (dkeys m) \<noteq> 0
                         then Some (rootObject ''Mutation'' m) else None),
          sc_subscription = (if length (dkeys u) \<noteq> 0
                             then Some (rootObject ''Subscriptions'' u) else None),
          sc_tables = buildTables b\<rparr>"
  using assms
  by (auto simp: build_eq newGraphQLSchemaM_eq split: sum.splits prod.splits)

section \<open>Enum materialization\<close>

text \<open>
  Claim C1, at the input where the code departs from it. The enum \<^verbatim>\<open>Role\<close> has four
  entries, and the \<^verbatim>\<open>values\<close> map of the decoration call names two of them, \<^verbatim>\<open>admin\<close> and
  \<^verbatim>\<open>moderator\<close>; the README says of this map: \<^verbatim>\<open>Anything not included here is not part of
  the schema!\<close> \<^verbatim>\<open>getOrAddEnum\<close> has seeded the record with every entry of the enum object,
  and the enum type of the schema that \<^verbatim>\<open>build()\<close> returns exposes all four.
\<close>

theorem C1_whitelist_ignored:
  "decorateEnum exRole exRoleFirst new_builder = (Inr (), exRoleDecorated)
   \<and> map_option dkeys (ea_values exRoleFirst) = Some [''admin'', ''moderator'']
   \<and> dkeys (eentries exRole) = [''admin'', ''moderator'', ''user'', ''guest'']
   \<and> build exRoleDecorated = (Inr exRoleSchema, exRoleDecorated)
   \<and> enumValueNames (tb_enums (sc_tables exRoleSchema)) ''Role'' =
       Some [''admin'', ''moderator'', ''user'', ''guest'']"
  by code_simp

section \<open>Field-type wrapping\<close>




section \<open>Deferred-reference resolution\<close>

lemma enum_entry_buildTables:
  "dhas (tb_enums (buildTables b)) name \<longleftrightarrow> name \<in> set (enumNames b)"
  by (simp add: tb_enums_buildTables dhas_iff dkeys_buildEnums)

lemma outputByName_buildTables:
  assumes "distinct (dkeys (types b))"
  shows "outputByName b (buildTables b) name =
     (if name \<in> set (enumNames b) then Inr (GEnumType name)
      else if name \<in> set objectPrototypeNames then Inr (GForeign (PrototypeMember name))
      else if kindOf b name = Some KInterface then Inr (GInterfaceType name)
      else if kindOf b name = Some KScalar \<and> scalarOf b name \<noteq> None then Inr (GScalarType name)
      else if dget (types b) name = None
        then Inl (Error (''Type '' @ CHR 0x27 # name @ CHR 0x27 # '' not defined''))
      else Inr (if kindOf b name = Some KType then GObjectType name else GUndefined))"
proof (cases "dget (types b) name")
  case None
  from tables_unregistered [OF None] show ?thesis
    by (simp add: outputByName_def entry_eq scalarEntry_eq enum_entry_buildTables kindOf_def
          scalarOf_def None hasType_eq dhas_def [of "types b"] quoted_def orUndefined_def)
next
  case (Some info)
  from tables_registered [OF assms Some] show ?thesis
    by (auto simp: outputByName_def entry_eq scalarEntry_eq enum_entry_buildTables kindOf_def
          scalarOf_def Some hasType_eq dhas_def [of "types b"] orUndefined_def)
qed

lemma outputByName_Inl:
  assumes "outputByName b (buildTables b) name = Inl e"
  shows "e = Error (''Type '' @ CHR 0x27 # name @ CHR 0x27 # '' not defined'')
       \<and> unresolved b name"
  using assms
  by (auto simp: outputByName_def entry_eq enum_entry_buildTables unresolved_def quoted_def
           split: option.splits if_splits)

lemma convertOutputType_Inl:
  assumes "convertOutputType b (buildTables b) ty = Inl e"
  shows "\<exists>msg. e = Error msg \<and> schemaError b msg"
  using assms outputByName_Inl [of b _ e]
  by (cases ty) (auto simp: convertOutputType_def schemaError_def split: option.splits)

lemma convertFieldInfoToType_Error:
  assumes "convertFieldInfoToType r converter = Inl (Error msg)"
  shows "\<exists>t. converter t = Inl (Error msg)"
  using assms
  by (auto simp: convertFieldInfoToType_def newGraphQLNonNull_def newGraphQLList_def
           split: return_ref.splits option.splits sum.splits if_splits)

lemma runConverter_Inl:
  "runConverter b tb conv t = Inl e \<Longrightarrow> convertOutputType b tb t = Inl e"
  by (cases conv) (simp_all add: runConverter_def)

lemma makeField_Error:
  assumes "makeField b (buildTables b) info conv x = Inl (Error msg)"
  shows "schemaError b msg"
proof -
  obtain n fi where x: "x = (n, fi)" by (cases x)
  from assms have "convertFieldInfoToType (RFieldInfo fi) (runConverter b (buildTables b) conv) =
      Inl (Error msg)"
    by (auto simp: makeField_def x split: sum.splits)
  from convertFieldInfoToType_Error [OF this] obtain t where
    "runConverter b (buildTables b) conv t = Inl (Error msg)" by blast
  from convertOutputType_Inl [OF runConverter_Inl [OF this]] show ?thesis by simp
qed

lemma getFields_Error:
  assumes "getFields b (buildTables b) info conv = Inl (Error msg)"
  shows "schemaError b msg"
proof -
  from assms obtain target where
    "mapE (makeField b (buildTables b) info conv) (mergedFields b target) = Inl (Error msg)"
    by (auto simp: getFields_def split: option.splits sum.splits)
  from mapE_Inl [OF this] makeField_Error show ?thesis by blast
qed

lemma resolveInterface_Inl:
  "resolveInterface tb r = Inl e \<Longrightarrow>
     e = Error (''Interface '' @ CHR 0x27 # show_iface r @ CHR 0x27 # '' not defined'')"
  by (cases r) (auto simp: resolveInterface_def quoted_def split: option.splits)

lemma getInterfaces_Inl:
  assumes "getInterfaces tb info = Inl e"
  shows "\<exists>msg. e = Error msg \<and> schemaError b msg"
proof -
  from assms obtain refs where "mapE (resolveInterface tb) refs = Inl e"
    by (auto simp: getInterfaces_def split: option.splits)
  from mapE_Inl [OF this] obtain r where "resolveInterface tb r = Inl e" by blast
  from resolveInterface_Inl [OF this] show ?thesis by (auto simp: schemaError_def)
qed

lemma foldE_Inl: "foldE f xs s = Inl e \<Longrightarrow> \<exists>x \<in> set xs. \<exists>s'. f x s' = Inl e"
  by (induction xs arbitrary: s) (auto split: sum.splits)

lemma foldE_fails:
  "x \<in> set xs \<Longrightarrow> (\<And>s. \<exists>e. f x s = Inl e) \<Longrightarrow> \<exists>e. foldE f xs s = Inl e"
proof (induction xs arbitrary: s)
  case Nil
  then show ?case by simp
next
  case (Cons a xs)
  show ?case
  proof (cases "f a s")
    case (Inl e)
    then show ?thesis by simp
  next
    case (Inr s')
    with Cons.prems(1) Cons.prems(2) [of s] have "x \<in> set xs" by auto
    from Cons.IH [OF this Cons.prems(2), of s'] Inr show ?thesis by simp
  qed
qed

lemma addOperation_Error:
  assumes "addOperation b (buildTables b) x acc = Inl (Error msg)"
  shows "schemaError b msg"
proof -
  obtain key val where x: "x = (key, val)" by (cases x)
  from assms have "convertFieldInfoToType (r_type val) (convertOutputType b (buildTables b)) =
      Inl (Error msg)"
    by (auto simp: addOperation_def x split: sum.splits)
  from convertFieldInfoToType_Error [OF this] convertOutputType_Inl show ?thesis by blast
qed

lemma addOperations_Error:
  assumes "addOperations b (buildTables b) x acc = Inl (Error msg)"
  shows "schemaError b msg"
proof -
  obtain n info where x: "x = (n, info)" by (cases x)
  obtain q m u where acc: "acc = (q, m, u)" by (cases acc)
  from assms obtain ops s where "foldE (addOperation b (buildTables b)) ops s = Inl (Error msg)"
    by (auto simp: addOperations_def x acc split: sum.splits)
  from foldE_Inl [OF this] addOperation_Error show ?thesis by blast
qed

lemma stepM_Error:
  assumes "stepM (buildTables b) typeMap it b = (Inl (Error msg), b')"
  shows "schemaError b msg"
proof (cases it)
  case (VisitRoot obj)
  with assms have "enterObject (buildTables b) obj = Inl (Error msg)"
    by (auto simp: stepM_def bindM_def liftE_def returnM_def throwM_def
             split: if_splits sum.splits)
  then have "runInterfaces (buildTables b) (go_interfaces obj) = Inl (Error msg)"
    by (auto simp: enterObject_def split: sum.splits)
  then obtain info where "getInterfaces (buildTables b) info = Inl (Error msg)"
    by (auto simp: runInterfaces_def split: option.splits interfaces_thunk.splits)
  from getInterfaces_Inl [OF this, of b] show ?thesis by simp
next
  case (Fields thunk isInput)
  with assms have "fst (runFieldsM (buildTables b) thunk b) = Inl (Error msg)"
    by (auto simp: stepM_def bindM_def returnM_def split: sum.splits prod.splits)
  then obtain info conv where "getFields b (buildTables b) info conv = Inl (Error msg)"
    by (auto simp: runFieldsM_eq split: fields_thunk.splits)
  from getFields_Error [OF this] show ?thesis .
next
  case (Visit ty)
  with assms have "enterType (buildTables b) ty = Inl (Error msg)"
    by (auto simp: stepM_def bindM_def liftE_def returnM_def throwM_def
             split: option.splits if_splits sum.splits gql_type.splits)
  then obtain obj where "enterObject (buildTables b) obj = Inl (Error msg)"
    by (auto simp: enterType_def split: gql_type.splits option.splits)
  then have "runInterfaces (buildTables b) (go_interfaces obj) = Inl (Error msg)"
    by (auto simp: enterObject_def split: sum.splits)
  then obtain info where "getInterfaces (buildTables b) info = Inl (Error msg)"
    by (auto simp: runInterfaces_def split: option.splits interfaces_thunk.splits)
  from getInterfaces_Inl [OF this, of b] show ?thesis by simp
qed

lemma typeMapM_Error:
  "tb = buildTables b \<Longrightarrow> typeMapM tb typeMap stack b = (Inl (Error msg), b') \<Longrightarrow>
     schemaError b msg"
proof (induction tb typeMap stack b rule: typeMapM.induct)
  case (1 tb typeMap b)
  then show ?case by simp
next
  case (2 tb typeMap it rest b)
  obtain r y where s: "stepM tb typeMap it b = (r, y)" by (cases "stepM tb typeMap it b")
  with stepM_frame [of tb typeMap it b] have y: "y = b" by simp
  show ?case
  proof (cases r)
    case (Inl e)
    with "2.prems"(2) s have "e = Error msg" by simp
    with s Inl "2.prems"(1) stepM_Error [of b typeMap it msg y] show ?thesis by simp
  next
    case (Inr p)
    obtain tm items where p: "p = (tm, items)" by (cases p)
    from s Inr p have s': "(Inr (tm, items), y) = stepM tb typeMap it b" by simp
    have run: "typeMapM tb tm (items @ rest) y = (Inl (Error msg), b')"
      using "2.prems"(2) by (simp add: s'[symmetric])
    from "2.IH" [OF s' refl refl _ run] "2.prems"(1) show ?thesis by (simp add: y)
  qed
qed

lemma build_Error:
  assumes "fst (build b) = Inl (Error msg)"
  shows "schemaError b msg"
proof (cases "foldE (addOperations b (buildTables b)) (types b) ([], [], [])")
  case (Inl e)
  with assms have "e = Error msg" by (simp add: build_eq)
  with Inl foldE_Inl [of "addOperations b (buildTables b)" "types b" _ e] addOperations_Error
  show ?thesis by blast
next
  case (Inr ops)
  obtain q m u where ops: "ops = (q, m, u)" by (cases ops)
  from assms obtain stack where
    "fst (typeMapM (buildTables b) [] stack b) = Inl (Error msg)"
    unfolding build_eq newGraphQLSchemaM_eq Inr ops
    by (auto split: sum.splits simp del: typeMapM.simps)
  then obtain b' where "typeMapM (buildTables b) [] stack b = (Inl (Error msg), b')"
    by (cases "typeMapM (buildTables b) [] stack b") simp
  from typeMapM_Error [OF refl this] show ?thesis .
qed

lemma unresolved_not_defined:
  assumes "distinct (dkeys (types b))" and "unresolved b name"
  shows "outputByName b (buildTables b) name =
           Inl (Error (''Type '' @ CHR 0x27 # name @ CHR 0x27 # '' not defined''))"
proof -
  from assms(2) have "name \<notin> set (enumNames b)" "name \<notin> set objectPrototypeNames"
    "dget (types b) name = None"
    by (auto simp: unresolved_def hasType_eq dhas_def)
  then show ?thesis
    by (simp add: outputByName_buildTables [OF assms(1)] kindOf_def scalarOf_def)
qed

lemma returnedName_fails:
  assumes "distinct (dkeys (types b))" and "returnedName r = Some name" and "unresolved b name"
  shows "convertFieldInfoToType r (convertOutputType b (buildTables b)) =
           Inl (Error (''Type '' @ CHR 0x27 # name @ CHR 0x27 # '' not defined''))"
proof -
  have c: "convertOutputType b (buildTables b) ty =
           Inl (Error (''Type '' @ CHR 0x27 # name @ CHR 0x27 # '' not defined''))"
    if "referredName ty = Some name" for ty
    using that unresolved_not_defined [OF assms(1,3)]
    by (cases ty) (simp_all add: referredName_def convertOutputType_def)
  from assms(2) show ?thesis
    by (cases r)
       (auto simp: returnedName_def convertFieldInfoToType_def c split: option.splits)
qed

lemma operation_fails:
  assumes "distinct (dkeys (types b))" and "(key, val) \<in> set (operations b)"
    and "returnedName (r_type val) = Some name" and "unresolved b name"
  shows "\<exists>e. fst (build b) = Inl e"
proof -
  let ?tb = "buildTables b"
  have op: "\<exists>e. addOperation b ?tb (key, val) acc = Inl e" for acc
    by (simp add: addOperation_def returnedName_fails [OF assms(1,3,4)])
  from assms(2) obtain n info where
    t: "(n, info) \<in> set (types b)"
    and k: "(key, val) \<in> set (t_queries info) \<or> (key, val) \<in> set (t_mutations info)
            \<or> (key, val) \<in> set (t_subscriptions info)"
    by (auto simp: operations_def)
  have "\<exists>e. addOperations b ?tb (n, info) acc = Inl e" for acc
  proof -
    obtain q m u where acc: "acc = (q, m, u)" by (cases acc)
    have f: "\<exists>e. foldE (addOperation b ?tb) ops s = Inl e" if "(key, val) \<in> set ops" for ops s
      by (rule foldE_fails [where f = "addOperation b ?tb", OF that op])
    show ?thesis
    proof (cases "foldE (addOperation b ?tb) (t_queries info) q")
      case (Inl e)
      then show ?thesis by (simp add: addOperations_def acc)
    next
      case q': (Inr q')
      with f [of "t_queries info" q] have nq: "(key, val) \<notin> set (t_queries info)" by auto
      show ?thesis
      proof (cases "foldE (addOperation b ?tb) (t_mutations info) m")
        case (Inl e)
        then show ?thesis by (simp add: addOperations_def acc q')
      next
        case m': (Inr m')
        with f [of "t_mutations info" m] have "(key, val) \<notin> set (t_mutations info)" by auto
        with k nq have "(key, val) \<in> set (t_subscriptions info)" by simp
        from f [OF this, of u] show ?thesis by (auto simp: addOperations_def acc q' m')
      qed
    qed
  qed
  from foldE_fails [where f = "addOperations b ?tb", OF t this] obtain e where
    "foldE (addOperations b ?tb) (types b) ([], [], []) = Inl e" by blast
  then show ?thesis by (auto simp: build_eq)
qed

lemma resolveInterface_undeclared:
  assumes "distinct (dkeys (types b))" and "kindOf b (ifaceName r) \<noteq> Some KInterface"
    and "ifaceName r \<notin> set objectPrototypeNames"
  shows "resolveInterface (buildTables b) r =
           Inl (Error (''Interface '' @ CHR 0x27 # show_iface r @ CHR 0x27 # '' not defined''))"
proof -
  have "\<not> dhas (tb_interfaces (buildTables b)) (ifaceName r)"
  proof (cases "dget (types b) (ifaceName r)")
    case None
    from tables_unregistered [OF None] show ?thesis by simp
  next
    case (Some info)
    from tables_registered [OF assms(1) Some] assms(2) show ?thesis
      by (simp add: kindOf_def Some)
  qed
  with assms(3) show ?thesis
    by (cases r) (simp_all add: resolveInterface_def ifaceName_def entry_eq quoted_def)
qed

text \<open>
  Claim C3, as amended. On the tables \<^verbatim>\<open>build()\<close> makes from a registry, an output-type
  reference given as a name resolves to the enum of that name if there is one; else, when
  the name is that of a property of \<^verbatim>\<open>Object.prototype\<close>, to that property; else to the
  interface; else to the scalar; else, when no record is registered under the name, it
  throws \<^verbatim>\<open>Error("Type '<name>' not defined")\<close>; else it is the object type of that name,
  or \<^verbatim>\<open>undefined\<close>, with no error, when the record is no object type. A thunk resolves as
  the name of the class it returns. An entry of an \<^verbatim>\<open>interfaces\<close> list that names no
  registered interface throws \<^verbatim>\<open>Error("Interface '<entry>' not defined")\<close>, and so does the
  thunk of a list that holds such an entry. \<^verbatim>\<open>build()\<close> throws when the return type of an
  operation is a name under which nothing is registered, and every \<^verbatim>\<open>Error\<close> that
  \<^verbatim>\<open>build()\<close> throws itself is one of these two, for a name that is not resolved.
\<close>

theorem C3_output_type_resolution:
  assumes "distinct (dkeys (types b))"
  shows "convertOutputType b (buildTables b) (TName name) =
           (if name \<in> set (enumNames b) then Inr (GEnumType name)
            else if name \<in> set objectPrototypeNames
              then Inr (GForeign (PrototypeMember name))
            else if kindOf b name = Some KInterface then Inr (GInterfaceType name)
            else if kindOf b name = Some KScalar \<and> scalarOf b name \<noteq> None
              then Inr (GScalarType name)
            else if \<not> hasType b name
              then Inl (Error (''Type '' @ CHR 0x27 # name @ CHR 0x27 # '' not defined''))
            else Inr (if kindOf b name = Some KType then GObjectType name else GUndefined))
       \<and> convertOutputType b (buildTables b) (TThunk c) =
           convertOutputType b (buildTables b) (TName (cname c))
       \<and> (kindOf b (ifaceName r) \<noteq> Some KInterface
            \<and> ifaceName r \<notin> set objectPrototypeNames \<longrightarrow>
            resolveInterface (buildTables b) r =
              Inl (Error (''Interface '' @ CHR 0x27 # show_iface r @ CHR 0x27 # '' not defined''))
            \<and> (t_interfaces info = Some refs \<and> r \<in> set refs \<longrightarrow>
                 (\<exists>r' \<in> set refs. getInterfaces (buildTables b) info =
                    Inl (Error (''Interface '' @ CHR 0x27 # show_iface r' @ CHR 0x27 #
                                '' not defined'')))))
       \<and> ((key, val) \<in> set (operations b) \<and> returnedName (r_type val) = Some name'
             \<and> unresolved b name' \<longrightarrow>
            (\<exists>e. fst (build b) = Inl e))
       \<and> (fst (build b) = Inl (Error msg) \<longrightarrow> schemaError b msg)"
proof (intro conjI impI)
  show "convertOutputType b (buildTables b) (TName name) =
           (if name \<in> set (enumNames b) then Inr (GEnumType name)
            else if name \<in> set objectPrototypeNames
              then Inr (GForeign (PrototypeMember name))
            else if kindOf b name = Some KInterface then Inr (GInterfaceType name)
            else if kindOf b name = Some KScalar \<and> scalarOf b name \<noteq> None
              then Inr (GScalarType name)
            else if \<not> hasType b name
              then Inl (Error (''Type '' @ CHR 0x27 # name @ CHR 0x27 # '' not defined''))
            else Inr (if kindOf b name = Some KType then GObjectType name else GUndefined))"
    using outputByName_buildTables [OF assms, of name]
    by (auto simp: convertOutputType_def hasType_eq dhas_def kindOf_def scalarOf_def
             split: option.splits)
  show "convertOutputType b (buildTables b) (TThunk c) =
           convertOutputType b (buildTables b) (TName (cname c))"
    by (simp add: convertOutputType_def)
next
  assume u: "kindOf b (ifaceName r) \<noteq> Some KInterface
             \<and> ifaceName r \<notin> set objectPrototypeNames"
  then show "resolveInterface (buildTables b) r =
          Inl (Error (''Interface '' @ CHR 0x27 # show_iface r @ CHR 0x27 # '' not defined''))"
    using resolveInterface_undeclared [OF assms] by blast
next
  assume u: "kindOf b (ifaceName r) \<noteq> Some KInterface
             \<and> ifaceName r \<notin> set objectPrototypeNames"
    and i: "t_interfaces info = Some refs \<and> r \<in> set refs"
  from u resolveInterface_undeclared [OF assms, of r] i
  obtain e where "mapE (resolveInterface (buildTables b)) refs = Inl e"
    using mapE_fails [of r refs "resolveInterface (buildTables b)"] by blast
  moreover from mapE_Inl [OF this] obtain r' where "r' \<in> set refs"
    "resolveInterface (buildTables b) r' = Inl e" by blast
  moreover from resolveInterface_Inl [OF this(2)]
  have "e = Error (''Interface '' @ CHR 0x27 # show_iface r' @ CHR 0x27 # '' not defined'')" .
  ultimately show "\<exists>r' \<in> set refs. getInterfaces (buildTables b) info =
      Inl (Error (''Interface '' @ CHR 0x27 # show_iface r' @ CHR 0x27 # '' not defined''))"
    using i by (auto simp: getInterfaces_def)
next
  assume "(key, val) \<in> set (operations b) \<and> returnedName (r_type val) = Some name'
             \<and> unresolved b name'"
  then show "\<exists>e. fst (build b) = Inl e"
    using operation_fails [OF assms] by blast
next
  assume "fst (build b) = Inl (Error msg)"
  then show "schemaError b msg" by (rule build_Error)
qed

theorem C3_output_type_resolution_witness:
  "distinct (dkeys (types exUnknownField))
   \<and> convertOutputType exUnknownField (buildTables exUnknownField) (TName ''Unknown'') =
       Inl (Error ''Type 'Unknown' not defined'')
   \<and> convertOutputType exUnknownField (buildTables exUnknownField) (TThunk exTest) =
       Inr (GObjectType ''Test'')
   \<and> fst (build exUnknownField) = Inl (Error ''Type 'Unknown' not defined'')
   \<and> schemaError exUnknownField ''Type 'Unknown' not defined''
   \<and> distinct (dkeys (types exUnknownInterface))
   \<and> kindOf exUnknownInterface (ifaceName (IName ''Unknown'')) \<noteq> Some KInterface
   \<and> ifaceName (IName ''Unknown'') \<notin> set objectPrototypeNames
   \<and> t_interfaces (typeOr exUnknownInterface ''Test'') = Some [IName ''Unknown'']
   \<and> resolveInterface (buildTables exUnknownInterface) (IName ''Unknown'') =
       Inl (Error ''Interface 'Unknown' not defined'')
   \<and> getInterfaces (buildTables exUnknownInterface) (typeOr exUnknownInterface ''Test'') =
       Inl (Error ''Interface 'Unknown' not defined'')
   \<and> fst (build exUnknownInterface) = Inl (Error ''Interface 'Unknown' not defined'')
   \<and> distinct (dkeys (types exUnknownReturn))
   \<and> operations exUnknownReturn =
       [(''lost'', \<lparr>r_type = RType (TName ''Unknown''),
                     r_config = \<lparr>c_args = None, c_resolve = Some 60, c_subscribe = None,
                                 c_deprecationReason = None, c_description = None\<rparr>\<rparr>)]
   \<and> returnedName (RType (TName ''Unknown'')) = Some ''Unknown''
   \<and> unresolved exUnknownReturn ''Unknown''
   \<and> isl (fst (build exUnknownReturn))
   \<and> fst (build exUnknownReturn) = Inl (Error ''Type 'Unknown' not defined'')"
proof -
  have d: "distinct (dkeys (types exUnknownField))" "distinct (dkeys (types exUnknownInterface))"
    "distinct (dkeys (types exUnknownReturn))"
    by code_simp+
  have n: "''Unknown'' \<notin> set (enumNames exUnknownField)"
    "''Unknown'' \<notin> set objectPrototypeNames"
    "kindOf exUnknownField ''Unknown'' = None"
    "\<not> hasType exUnknownField ''Unknown''" "cname exTest = ''Test''"
    "''Test'' \<notin> set (enumNames exUnknownField)" "''Test'' \<notin> set objectPrototypeNames"
    "kindOf exUnknownField ''Test'' = Some KType"
    "hasType exUnknownField ''Test''"
    by code_simp+
  have u: "kindOf exUnknownInterface (ifaceName (IName ''Unknown'')) \<noteq> Some KInterface"
    "ifaceName (IName ''Unknown'') \<notin> set objectPrototypeNames"
    "t_interfaces (typeOr exUnknownInterface ''Test'') = Some [IName ''Unknown'']"
    by code_simp+
  have o: "operations exUnknownReturn =
       [(''lost'', \<lparr>r_type = RType (TName ''Unknown''),
                     r_config = \<lparr>c_args = None, c_resolve = Some 60, c_subscribe = None,
                                 c_deprecationReason = None, c_description = None\<rparr>\<rparr>)]"
    "unresolved exUnknownReturn ''Unknown''"
    "returnedName (RType (TName ''Unknown'')) = Some ''Unknown''"
    by code_simp+
  have b: "fst (build exUnknownField) = Inl (Error ''Type 'Unknown' not defined'')"
    "fst (build exUnknownInterface) = Inl (Error ''Interface 'Unknown' not defined'')"
    "fst (build exUnknownReturn) = Inl (Error ''Type 'Unknown' not defined'')"
    by code_simp+
  note f = C3_output_type_resolution [OF d(1), where name = "''Unknown''" and c = exTest
      and msg = "''Type 'Unknown' not defined''"]
  note g = C3_output_type_resolution [OF d(2), where r = "IName ''Unknown''"
      and info = "typeOr exUnknownInterface ''Test''" and refs = "[IName ''Unknown'']"
      and msg = "''Interface 'Unknown' not defined''"]
  note h = C3_output_type_resolution [OF d(3), where name' = "''Unknown''" and key = "''lost''"
      and val = "\<lparr>r_type = RType (TName ''Unknown''),
                     r_config = \<lparr>c_args = None, c_resolve = Some 60, c_subscribe = None,
                                 c_deprecationReason = None, c_description = None\<rparr>\<rparr>"]
  have 1: "convertOutputType exUnknownField (buildTables exUnknownField) (TName ''Unknown'') =
       Inl (Error ''Type 'Unknown' not defined'')"
    using f n by simp
  have 2: "convertOutputType exUnknownField (buildTables exUnknownField) (TThunk exTest) =
       Inr (GObjectType ''Test'')"
    using f C3_output_type_resolution [OF d(1), where name = "''Test''"] n by simp
  have 3: "schemaError exUnknownField ''Type 'Unknown' not defined''"
    using f b(1) by blast
  have 4: "resolveInterface (buildTables exUnknownInterface) (IName ''Unknown'') =
       Inl (Error ''Interface 'Unknown' not defined'')"
    "getInterfaces (buildTables exUnknownInterface) (typeOr exUnknownInterface ''Test'') =
       Inl (Error ''Interface 'Unknown' not defined'')"
    using g u by (simp_all add: show_iface_def)
  have "\<exists>e. fst (build exUnknownReturn) = Inl e"
    using h o by simp
  then have 5: "isl (fst (build exUnknownReturn))"
    by auto
  show ?thesis
    using d n u o b 1 2 3 4 5 by blast
qed

text \<open>
  The claim as it was stated fails on the name of a class that has an annotated property
  and no class annotation: the name is no enum, interface, scalar or object type, yet a
  record is registered under it, so the reference resolves to \<^verbatim>\<open>undefined\<close> and
  \<^verbatim>\<open>build()\<close> returns a schema in which the query has no type.
\<close>

theorem C3_kindless_record_counterexample:
  "kindOf exBaseQuery ''Base'' = None
   \<and> ''Base'' \<notin> set (enumNames exBaseQuery)
   \<and> hasType exBaseQuery ''Base''
   \<and> convertOutputType exBaseQuery (buildTables exBaseQuery) (TName ''Base'') = Inr GUndefined
   \<and> build exBaseQuery = (Inr exBaseSchema, exBaseQuery)"
  by code_simp

text \<open>
  The thunks of a type are called when the schema reaches the type from its roots. A type
  with a field of an undeclared type that no operation and no reached type refers to is
  never visited, and \<^verbatim>\<open>build()\<close> returns a schema.
\<close>

lemma build_exUnreached:
  "map_option f_type (lookupField exUnreached ''Test'' ''test'') = Some (Some (TName ''Unknown''))
   \<and> unresolved exUnreached ''Unknown''
   \<and> \<not> isl (fst (build exUnreached))"
  by code_simp

text \<open>
  A name that every object inherits resolves to the inherited property, whatever the
  registry holds.
\<close>

lemma convertOutputType_inherited:
  "unresolved new_builder ''Unknown''
   \<and> \<not> dhas (types new_builder) ''constructor''
   \<and> convertOutputType new_builder (buildTables new_builder) (TName ''constructor'') =
       Inr (GForeign (PrototypeMember ''constructor''))"
  by code_simp

section \<open>Field-set assembly\<close>

lemma parentsOf_registered:
  assumes "p \<in> set (parentsOf b target)"
  shows "p \<in> snd ` set (types b)"
proof -
  from assms obtain c where "findByClass b c = Some p"
    by (auto simp: parentsOf_def map_filter_def)
  then obtain i where "i < length (map snd (types b))" "p = map snd (types b) ! i"
    by (auto simp: findByClass_def find_Some_iff)
  then have "p \<in> set (map snd (types b))"
    using nth_mem [of i "map snd (types b)"] by simp
  then show ?thesis by simp
qed

lemma dget_merge:
  assumes "\<forall>p \<in> set ps. distinct (dkeys (t_fields p))"
  shows "dget (foldl spread [] (map t_fields ps)) k =
           (case find (\<lambda>p. dhas (t_fields p) k) (rev ps) of
              None \<Rightarrow> None
            | Some p \<Rightarrow> dget (t_fields p) k)"
  using assms
proof (induction ps rule: rev_induct)
  case Nil
  then show ?case by (simp add: dget_def)
next
  case (snoc p ps)
  then have d: "distinct (dkeys (t_fields p))" and IH:
    "dget (foldl spread [] (map t_fields ps)) k =
           (case find (\<lambda>p. dhas (t_fields p) k) (rev ps) of
              None \<Rightarrow> None
            | Some p \<Rightarrow> dget (t_fields p) k)"
    by simp_all
  show ?case
    by (simp add: dget_spread [OF d] IH dhas_def split: option.splits)
qed

lemma dkeys_mergedFields:
  "set (dkeys (mergedFields b target)) =
     (\<Union>p \<in> set (parentsOf b target). set (dkeys (t_fields p)))"
  by (simp add: mergedFields_def reduce_spread_def dkeys_foldl_spread) (simp add: dkeys_def)

lemma distinct_mergedFields: "distinct (dkeys (mergedFields b target))"
proof -
  have "distinct (dkeys ([] :: field_info hash))" by (simp add: dkeys_def)
  then show ?thesis
    unfolding mergedFields_def reduce_spread_def by (rule distinct_foldl_spread)
qed

lemma dget_mergedFields:
  assumes "wf_builder b"
  shows "dget (mergedFields b target) k =
           (case find (\<lambda>p. dhas (t_fields p) k) (rev (parentsOf b target)) of
              None \<Rightarrow> None
            | Some p \<Rightarrow> dget (t_fields p) k)"
proof -
  have "\<forall>p \<in> set (parentsOf b target). distinct (dkeys (t_fields p))"
  proof
    fix p assume "p \<in> set (parentsOf b target)"
    from parentsOf_registered [OF this] obtain n where "(n, p) \<in> set (types b)" by auto
    with assms show "distinct (dkeys (t_fields p))" by (auto simp: wf_builder_def)
  qed
  from dget_merge [OF this] show ?thesis
    by (simp add: mergedFields_def reduce_spread_def)
qed

lemma makeField_Inr:
  "makeField b tb info conv (n, fi) = Inr r \<Longrightarrow> \<exists>gf. r = [(n, gf)]"
  by (auto simp: makeField_def split: sum.splits)

lemma mapE_makeField:
  "mapE (makeField b tb info conv) m = Inr rs \<Longrightarrow>
     \<exists>fs0. rs = map (\<lambda>x. [x]) fs0 \<and>
       list_all2 (\<lambda>x y. fst y = fst x \<and> makeField b tb info conv x = Inr [y]) m fs0"
proof (induction m arbitrary: rs)
  case Nil
  then show ?case by simp
next
  case (Cons a m)
  obtain n fi where a: "a = (n, fi)" by (cases a)
  from Cons.prems obtain r rs' where r: "makeField b tb info conv a = Inr r"
    and rest: "mapE (makeField b tb info conv) m = Inr rs'" and rs: "rs = r # rs'"
    by (auto split: sum.splits)
  from makeField_Inr [of b tb info conv n fi r] r obtain gf where gf: "r = [(n, gf)]"
    by (auto simp: a)
  from Cons.IH [OF rest] obtain fs0 where "rs' = map (\<lambda>x. [x]) fs0"
    "list_all2 (\<lambda>x y. fst y = fst x \<and> makeField b tb info conv x = Inr [y]) m fs0"
    by blast
  then have "rs = map (\<lambda>x. [x]) ((n, gf) # fs0) \<and>
    list_all2 (\<lambda>x y. fst y = fst x \<and> makeField b tb info conv x = Inr [y]) (a # m) ((n, gf) # fs0)"
    using r by (simp add: rs gf a)
  then show ?case by blast
qed

text \<open>
  Claim C4, as amended. The field set that \<^verbatim>\<open>getFields\<close> assembles for a record is
  the union of the field maps of the registered records of its inheritance chain: those
  classes of the chain, the class itself included, that are the target of a record (a
  class annotation sets the target). Each name is there once, and its field is made from
  the field record of the most derived of these classes that declares the name.
\<close>

theorem C4_inherited_fields:
  assumes "wf_builder b" and "t_target info = Some target"
    and "getFields b tb info conv = Inr fs"
  shows "set (dkeys fs) = (\<Union>p \<in> set (parentsOf b target). set (dkeys (t_fields p)))
       \<and> distinct (dkeys fs)
       \<and> (\<forall>name gf. dget fs name = Some gf \<longrightarrow>
            (\<exists>p fi. find (\<lambda>p. dhas (t_fields p) name) (rev (parentsOf b target)) = Some p
                   \<and> dget (t_fields p) name = Some fi
                   \<and> makeField b tb info conv (name, fi) = Inr [(name, gf)]))"
proof -
  let ?m = "mergedFields b target"
  from assms(2,3) obtain rs where rs: "mapE (makeField b tb info conv) ?m = Inr rs"
    and fs: "fs = reduce_spread rs"
    by (auto simp: getFields_def split: sum.splits)
  from mapE_makeField [OF rs] obtain fs0 where rs0: "rs = map (\<lambda>x. [x]) fs0"
    and all: "list_all2 (\<lambda>x y. fst y = fst x \<and> makeField b tb info conv x = Inr [y]) ?m fs0"
    by blast
  have keys: "dkeys fs0 = dkeys ?m" by (rule list_all2_keys [OF all])
  then have d0: "distinct (dkeys fs0)" by (simp add: distinct_mergedFields)
  have eq: "fs = fs0" by (simp add: fs rs0 reduce_spread_singletons [OF d0])
  have 1: "set (dkeys fs) = (\<Union>p \<in> set (parentsOf b target). set (dkeys (t_fields p)))"
    by (simp only: eq keys dkeys_mergedFields)
  have 2: "distinct (dkeys fs)" by (simp add: eq d0)
  have 3: "\<exists>p fi. find (\<lambda>p. dhas (t_fields p) name) (rev (parentsOf b target)) = Some p
                   \<and> dget (t_fields p) name = Some fi
                   \<and> makeField b tb info conv (name, fi) = Inr [(name, gf)]"
    if g: "dget fs name = Some gf" for name gf
  proof -
    from list_all2_dget [OF all distinct_mergedFields] g obtain fi where
      fi: "dget ?m name = Some fi" and mk: "makeField b tb info conv (name, fi) = Inr [(name, gf)]"
      unfolding eq by blast
    from fi show ?thesis
      unfolding dget_mergedFields [OF assms(1)] using mk by (auto split: option.splits)
  qed
  from 1 2 3 show ?thesis by blast
qed

theorem C4_inherited_fields_witness:
  "wf_builder exInherited
   \<and> t_target (typeOr exInherited ''User'') = Some exUser
   \<and> getFields exInherited (buildTables exInherited) (typeOr exInherited ''User'')
       ConvertOutputType = Inr exUserFields
   \<and> dkeys exUserFields = [''kind'', ''id'', ''name'']
   \<and> distinct (dkeys exUserFields)
   \<and> lookupField exInherited ''Node'' ''id'' =
       Some \<lparr>f_name = Some ''id'', f_type = Some (TGraphQL (GGiven ''ID'')), f_args = None,
             f_resolver = None, f_description = None, f_list = False, f_nonNull = True,
             f_nonNullItems = False\<rparr>
   \<and> lookupField exInherited ''User'' ''id'' =
       Some \<lparr>f_name = Some ''id'', f_type = Some (TGraphQL (GGiven ''ID'')), f_args = None,
             f_resolver = None, f_description = Some ''The id of a user.'', f_list = False,
             f_nonNull = False, f_nonNullItems = False\<rparr>"
proof -
  have w: "wf_builder exInherited" by code_simp
  have t: "t_target (typeOr exInherited ''User'') = Some exUser" by code_simp
  have g: "getFields exInherited (buildTables exInherited) (typeOr exInherited ''User'')
       ConvertOutputType = Inr exUserFields" by code_simp
  have k: "dkeys exUserFields = [''kind'', ''id'', ''name'']" by code_simp
  have l: "lookupField exInherited ''Node'' ''id'' =
       Some \<lparr>f_name = Some ''id'', f_type = Some (TGraphQL (GGiven ''ID'')), f_args = None,
             f_resolver = None, f_description = None, f_list = False, f_nonNull = True,
             f_nonNullItems = False\<rparr>"
    "lookupField exInherited ''User'' ''id'' =
       Some \<lparr>f_name = Some ''id'', f_type = Some (TGraphQL (GGiven ''ID'')), f_args = None,
             f_resolver = None, f_description = Some ''The id of a user.'', f_list = False,
             f_nonNull = False, f_nonNullItems = False\<rparr>"
    by code_simp+
  show ?thesis using C4_inherited_fields [OF w t g] w t g k l by blast
qed

text \<open>
  The claim as it was stated fails on a class whose superclass declares a field but
  carries no class annotation: the superclass is in the chain and has a field map of its
  own, and its field is not in the field set.
\<close>

theorem C4_undecorated_ancestor_counterexample:
  "getInheritanceTree exDerived = [exDerived, exBase]
   \<and> lookupField exUndecoratedBase ''Base'' ''a'' =
       Some \<lparr>f_name = Some ''a'', f_type = Some (TGraphQL (GGiven ''String'')), f_args = None,
             f_resolver = None, f_description = None, f_list = False, f_nonNull = False,
             f_nonNullItems = False\<rparr>
   \<and> getFields exUndecoratedBase (buildTables exUndecoratedBase)
       (typeOr exUndecoratedBase ''Derived'') ConvertOutputType =
       Inr [(''b'',
             \<lparr>gf_name = Some ''b'', gf_type = GGiven ''String'', gf_args = None,
              gf_resolve = None, gf_subscribe = None, gf_deprecationReason = None,
              gf_description = None\<rparr>)]"
  by code_simp

section \<open>The compiler reads the registry\<close>


section \<open>Root operation assembly\<close>

lemma foldE_addOperation_Nil:
  "foldE (addOperation b tb) ops acc = Inr acc' \<Longrightarrow> acc' = [] \<longleftrightarrow> acc = [] \<and> ops = []"
proof (induction ops arbitrary: acc)
  case Nil
  then show ?case by simp
next
  case (Cons a ops)
  obtain key val where a: "a = (key, val)" by (cases a)
  from Cons.prems obtain s where s: "addOperation b tb a acc = Inr s"
    and rest: "foldE (addOperation b tb) ops s = Inr acc'"
    by (auto split: sum.splits)
  from s have "s \<noteq> []"
    by (auto simp: addOperation_def a dset_not_Nil split: sum.splits)
  with Cons.IH [OF rest] show ?case by simp
qed

lemma foldE_addOperations_Nil:
  "foldE (addOperations b tb) ts (q, m, s) = Inr (q', m', s') \<Longrightarrow>
     (q' = [] \<longleftrightarrow> q = [] \<and> (\<forall>(n, info) \<in> set ts. t_queries info = [])) \<and>
     (m' = [] \<longleftrightarrow> m = [] \<and> (\<forall>(n, info) \<in> set ts. t_mutations info = [])) \<and>
     (s' = [] \<longleftrightarrow> s = [] \<and> (\<forall>(n, info) \<in> set ts. t_subscriptions info = []))"
proof (induction ts arbitrary: q m s)
  case Nil
  then show ?case by simp
next
  case (Cons a ts)
  obtain n info where a: "a = (n, info)" by (cases a)
  from Cons.prems obtain q1 m1 s1 where
    step: "addOperations b tb a (q, m, s) = Inr (q1, m1, s1)"
    and rest: "foldE (addOperations b tb) ts (q1, m1, s1) = Inr (q', m', s')"
    by (auto split: sum.splits)
  from step have
    "foldE (addOperation b tb) (t_queries info) q = Inr q1"
    "foldE (addOperation b tb) (t_mutations info) m = Inr m1"
    "foldE (addOperation b tb) (t_subscriptions info) s = Inr s1"
    by (auto simp: addOperations_def a split: sum.splits)
  then have
    "q1 = [] \<longleftrightarrow> q = [] \<and> t_queries info = []"
    "m1 = [] \<longleftrightarrow> m = [] \<and> t_mutations info = []"
    "s1 = [] \<longleftrightarrow> s = [] \<and> t_subscriptions info = []"
    by (simp_all add: foldE_addOperation_Nil)
  with Cons.IH [OF rest] show ?case by (auto simp: a)
qed

lemma build_exOperations: "build exOperations = (Inr exSchema, exOperations)"
  by code_simp

lemma build_new_builder: "build new_builder = (Inr exEmptySchema, new_builder)"
  by code_simp

text \<open>
  Claim C6. In a schema that \<^verbatim>\<open>build()\<close> returns, the Query root is always there; the
  Mutation root is there exactly when some registered record holds a mutation, and the
  Subscription root exactly when some registered record holds a subscription.
\<close>

theorem C6_roots_present:
  assumes "build b = (Inr s, b')"
  shows "sc_query s \<noteq> None
     \<and> (sc_mutation s \<noteq> None \<longleftrightarrow> (\<exists>(n, info) \<in> set (types b). t_mutations info \<noteq> []))
     \<and> (sc_subscription s \<noteq> None \<longleftrightarrow>
          (\<exists>(n, info) \<in> set (types b). t_subscriptions info \<noteq> []))"
proof -
  from assms obtain q m u where
    ops: "foldE (addOperations b (buildTables b)) (types b) ([], [], []) = Inr (q, m, u)"
    and s: "s = \<lparr>sc_query = Some (rootObject ''Query'' q),
                 sc_mutation = (if length (dkeys m) \<noteq> 0
                                then Some (rootObject ''Mutation'' m) else None),
                 sc_subscription = (if length (dkeys u) \<noteq> 0
                                    then Some (rootObject ''Subscriptions'' u) else None),
                 sc_tables = buildTables b\<rparr>"
    by (rule build_Inr)
  from foldE_addOperations_Nil [OF ops] show ?thesis
    by (auto simp: s dkeys_def)
qed

theorem C6_roots_present_witness:
  "build exOperations = (Inr exSchema, exOperations)
   \<and> sc_query exSchema \<noteq> None \<and> sc_mutation exSchema \<noteq> None \<and> sc_subscription exSchema \<noteq> None
   \<and> build new_builder = (Inr exEmptySchema, new_builder)
   \<and> sc_query exEmptySchema \<noteq> None \<and> sc_mutation exEmptySchema = None
   \<and> sc_subscription exEmptySchema = None"
  using C6_roots_present [OF build_exOperations] C6_roots_present [OF build_new_builder]
    build_exOperations build_new_builder
  by (simp add: exSchema_def exEmptySchema_def)

section \<open>Property annotations\<close>

lemma annotate_twice:
  "annotate x cn pn (annotate y cn pn b) =
     assignField b cn pn
       (\<lambda>f. assignment (t_kind (typeOr b cn)) x (assignment (t_kind (typeOr b cn)) y f))"
proof -
  have y: "annotate y cn pn b = assignField b cn pn (assignment (t_kind (typeOr b cn)) y)"
    by (rule annotate_eq)
  have "annotate x cn pn (annotate y cn pn b) =
          assignField (annotate y cn pn b) cn pn
            (assignment (t_kind (typeOr (annotate y cn pn b) cn)) x)"
    by (rule annotate_eq)
  also have "\<dots> = assignField (assignField b cn pn (assignment (t_kind (typeOr b cn)) y)) cn pn
                     (assignment (t_kind (typeOr b cn)) x)"
    by (simp only: y kind_assignField)
  finally show ?thesis by (simp only: assignField_twice)
qed

lemma assignment_commute:
  "set (assigned x) \<inter> set (assigned y) = {} \<Longrightarrow>
     assignment k x (assignment k y f) = assignment k y (assignment k x f)"
  by (cases x; cases y; simp split: option.splits if_splits)

lemma annotate_commute:
  assumes "set (assigned x) \<inter> set (assigned y) = {}"
  shows "annotate x cn pn (annotate y cn pn b) = annotate y cn pn (annotate x cn pn b)"
  by (simp only: annotate_twice assignment_commute [OF assms])

lemma assigned_not_Nil: "assigned a \<noteq> []"
  by (cases a) simp_all

lemma disjointAttributes_pair:
  assumes "disjointAttributes xs" "x \<in> set xs" "y \<in> set xs" "x \<noteq> y"
  shows "set (assigned x) \<inter> set (assigned y) = {}"
proof -
  have nn: "removeAll [] (map assigned xs) = map assigned xs"
    by (induction xs) (simp_all add: assigned_not_Nil [symmetric])
  from assms(1) have d: "distinct (map assigned xs)"
    and disj: "\<And>ys zs. ys \<in> set (map assigned xs) \<Longrightarrow> zs \<in> set (map assigned xs) \<Longrightarrow> ys \<noteq> zs
                 \<Longrightarrow> set ys \<inter> set zs = {}"
    unfolding disjointAttributes_def distinct_concat_iff nn by auto
  from d have "inj_on assigned (set xs)" by (simp add: distinct_map)
  with assms(2-4) have "assigned x \<noteq> assigned y" by (auto dest: inj_onD)
  with disj [of "assigned x" "assigned y"] assms(2,3) show ?thesis by auto
qed

text \<open>
  Claim C7, as amended. Annotations of one property among \<^verbatim>\<open>field\<close>, \<^verbatim>\<open>description\<close>,
  \<^verbatim>\<open>resolve\<close>, \<^verbatim>\<open>list\<close>, \<^verbatim>\<open>nonNull\<close> and \<^verbatim>\<open>nonNullItems\<close>, no two of which assign the
  same attribute of the field record, leave the same registry in whatever order they are
  applied. (\<^verbatim>\<open>field\<close> and \<^verbatim>\<open>list\<close> both assign \<^verbatim>\<open>type\<close>, and \<^verbatim>\<open>args\<close> when they are given
  it, so the two together are not such a collection.)
\<close>

theorem C7_annotations_commute:
  assumes "mset ys = mset xs" and "disjointAttributes xs"
  shows "fold (\<lambda>a. annotate a cn pn) ys b = fold (\<lambda>a. annotate a cn pn) xs b"
proof -
  have "fold (\<lambda>a. annotate a cn pn) xs = fold (\<lambda>a. annotate a cn pn) ys"
  proof (rule fold_multiset_equiv)
    fix x y assume "x \<in> set xs" "y \<in> set xs"
    show "annotate x cn pn \<circ> annotate y cn pn = annotate y cn pn \<circ> annotate x cn pn"
    proof (cases "x = y")
      case True then show ?thesis by simp
    next
      case False
      have "set (assigned x) \<inter> set (assigned y) = {}"
        by (rule disjointAttributes_pair [OF assms(2) \<open>x \<in> set xs\<close> \<open>y \<in> set xs\<close> False])
      then have "annotate x cn pn (annotate y cn pn s) = annotate y cn pn (annotate x cn pn s)"
        for s by (rule annotate_commute)
      then show ?thesis by (simp only: fun_eq_iff comp_apply) simp
    qed
  next
    show "mset xs = mset ys" using assms(1) by simp
  qed
  then show ?thesis by simp
qed

theorem C7_annotations_commute_witness:
  "mset (rev exKindAnnotations) = mset exKindAnnotations
   \<and> disjointAttributes exKindAnnotations
   \<and> fold (\<lambda>a. annotate a ''Node'' ''kind'') (rev exKindAnnotations) new_builder =
       fold (\<lambda>a. annotate a ''Node'' ''kind'') exKindAnnotations new_builder"
proof -
  have m: "mset (rev exKindAnnotations) = mset exKindAnnotations"
    by simp
  have d: "disjointAttributes exKindAnnotations"
    by (simp add: disjointAttributes_def exKindAnnotations_def)
  show ?thesis
    using C7_annotations_commute [OF m d, of "''Node''" "''kind''" new_builder] m d by blast
qed

text \<open>
  The claim as it was stated fails on \<^verbatim>\<open>field\<close> and \<^verbatim>\<open>list\<close> with different types: the
  one applied last decides the type of the field.
\<close>

theorem C7_field_list_counterexample:
  "map_option f_type
     (lookupField (annotate (AList (TGraphQL (GGiven ''Int'')) None) ''C'' ''p''
        (annotate (AField (TGraphQL (GGiven ''String'')) None) ''C'' ''p'' new_builder))
        ''C'' ''p'') = Some (Some (TGraphQL (GGiven ''Int'')))
   \<and> map_option f_type
       (lookupField (annotate (AField (TGraphQL (GGiven ''String'')) None) ''C'' ''p''
          (annotate (AList (TGraphQL (GGiven ''Int'')) None) ''C'' ''p'' new_builder))
          ''C'' ''p'') = Some (Some (TGraphQL (GGiven ''String'')))"
  by code_simp

section \<open>Enum registration\<close>

text \<open>
  Claim C8, at the input where the code departs from it. The test \<^verbatim>\<open>enums\<close> decorates
  \<^verbatim>\<open>Role\<close> a second time with a name only and expects the second call to be ignored.
  After the first call the record has the description the caller gave; after the second,
  which gives no description, the description is gone. (The values are kept.)
\<close>

theorem C8_redecoration_drops_description:
  "decorateEnum exRole exRoleFirst new_builder = (Inr (), exRoleDecorated)
   \<and> map_option e_description (dget (enums exRoleDecorated) exRole) = Some (Some ''An enum'')
   \<and> ea_description exRoleAgain = None
   \<and> fst (decorateEnum exRole exRoleAgain exRoleDecorated) = Inr ()
   \<and> map_option e_description
       (dget (enums (snd (decorateEnum exRole exRoleAgain exRoleDecorated))) exRole) = Some None
   \<and> map_option e_values
       (dget (enums (snd (decorateEnum exRole exRoleAgain exRoleDecorated))) exRole) =
     map_option e_values (dget (enums exRoleDecorated) exRole)"
  by code_simp

lemma trim_Nil: "trim [] = []"
  by (simp add: trim_def)

text \<open>
  Claim C9, as amended. \<^verbatim>\<open>decorateEnum\<close> called with a missing name, or with a name that
  is empty once its white space is trimmed, throws
  \<^verbatim>\<open>Error("Invalid name specified for enum '<name>'")\<close> at the call and leaves the
  registry as it was, whether or not the enum is registered already. A name with a
  character that is not white space never gives this error.
\<close>

theorem C9_enum_name_guard:
  "((case ea_name args of None \<Rightarrow> True | Some n \<Rightarrow> trim n = []) \<longrightarrow>
      decorateEnum object args b =
        (Inl (Error (''Invalid name specified for enum '' @ quoted (show_opt (ea_name args)))),
         b))
   \<and> ((case ea_name args of None \<Rightarrow> False | Some n \<Rightarrow> trim n \<noteq> []) \<longrightarrow>
      (\<forall>msg. fst (decorateEnum object args b) \<noteq> Inl (Error msg)))"
  by (auto simp: decorateEnum_def getOrAddEnum_def reduce_spread1_def Let_def trim_Nil
           split: option.splits sum.splits list.splits prod.splits)

theorem C9_enum_name_guard_witness:
  "(case ea_name exRoleUnnamed of None \<Rightarrow> True | Some n \<Rightarrow> trim n = [])
   \<and> decorateEnum exRole exRoleUnnamed new_builder =
       (Inl (Error (''Invalid name specified for enum '' @ quoted ''undefined'')), new_builder)
   \<and> (case ea_name exRoleAgain of None \<Rightarrow> False | Some n \<Rightarrow> trim n \<noteq> [])
   \<and> fst (decorateEnum exRole exRoleAgain new_builder) \<noteq>
       Inl (Error (''Invalid name specified for enum '' @ quoted ''Role''))"
proof -
  have blank: "(case ea_name exRoleUnnamed of None \<Rightarrow> True | Some n \<Rightarrow> trim n = [])"
    by (simp add: exRoleUnnamed_def)
  have named: "(case ea_name exRoleAgain of None \<Rightarrow> False | Some n \<Rightarrow> trim n \<noteq> [])"
    by (simp add: exRoleAgain_def trim_def is_space_def)
  show ?thesis
    using C9_enum_name_guard [of exRoleUnnamed exRole new_builder]
      C9_enum_name_guard [of exRoleAgain exRole new_builder] blank named
    by (simp add: exRoleUnnamed_def show_opt_def)
qed

text \<open>
  The claim as it was stated fails on a name of two spaces: it is not empty, and the call
  throws the error.
\<close>

theorem C9_blank_name_counterexample:
  "''  '' \<noteq> []
   \<and> decorateEnum exRole exRoleBlank new_builder =
       (Inl (Error (''Invalid name specified for enum '' @ quoted ''  '')), new_builder)"
  by (simp add: decorateEnum_def getOrAddEnum_def exRoleBlank_def trim_def is_space_def
        show_opt_def)

section \<open>Names of the root objects\<close>

text \<open>
  Claim C10. In a schema that \<^verbatim>\<open>build()\<close> returns, the root objects are named
  \<^verbatim>\<open>Query\<close>, \<^verbatim>\<open>Mutation\<close> and \<^verbatim>\<open>Subscriptions\<close>, whatever the classes that declared the
  operations are called.
\<close>

theorem C10_root_names:
  assumes "build b = (Inr s, b')"
  shows "map_option go_name (sc_query s) = Some ''Query''
     \<and> (\<forall>m. sc_mutation s = Some m \<longrightarrow> go_name m = ''Mutation'')
     \<and> (\<forall>u. sc_subscription s = Some u \<longrightarrow> go_name u = ''Subscriptions'')"
proof -
  from assms obtain q m u where
    "s = \<lparr>sc_query = Some (rootObject ''Query'' q),
          sc_mutation = (if length (dkeys m) \<noteq> 0
                         then Some (rootObject ''Mutation'' m) else None),
          sc_subscription = (if length (dkeys u) \<noteq> 0
                             then Some (rootObject ''Subscriptions'' u) else None),
          sc_tables = buildTables b\<rparr>"
    by (rule build_Inr)
  then show ?thesis by (auto simp: rootObject_def split: if_splits)
qed

theorem C10_root_names_witness:
  "build exOperations = (Inr exSchema, exOperations)
   \<and> map_option go_name (sc_query exSchema) = Some ''Query''
   \<and> map_option go_name (sc_mutation exSchema) = Some ''Mutation''
   \<and> map_option go_name (sc_subscription exSchema) = Some ''Subscriptions''"
  using C10_root_names [OF build_exOperations] build_exOperations
  by (simp add: exSchema_def rootObject_def)

end
